theory Spec2Isabelle
  imports Main
begin

section \<open>The jscrambler client workflows (packages/jscrambler-cli/src/index.js)\<close>

text \<open>
  The module drives a remote service through a transport client.  The model makes
  every effect of a workflow an entry of a trace: each transport call, each console
  line, each timer and each call into the archive codec or the file system.  What the
  remote service and the local helpers answer is read from a record of scripted
  answers, the way a mock transport would hand them out.  A workflow is a function
  from the configuration and the scripted answers to the trace it leaves and the way
  it ends: by returning a value, by throwing, or by still waiting for an answer that
  the script does not contain.

  The transport client itself is built by \<^verbatim>\<open>new this.Client({...})\<close> from the
  keys, host, port, protocol and proxy settings; the constructor is outside this
  module and the settings only reach that constructor, so they are left out of the
  configuration record.  The configuration is the object after \<^verbatim>\<open>buildFinalConfig\<close>
  has overlaid the defaults.
\<close>

subsection \<open>JavaScript values and truthiness\<close>

datatype jsvalue =
    JUndefined
  | JNull
  | JBool bool
  | JNum int
  | JStr string
  | JArr "jsvalue list"
  | JObj "(string \<times> jsvalue) list"

fun truthy :: "jsvalue \<Rightarrow> bool" where
  "truthy JUndefined = False"
| "truthy JNull = False"
| "truthy (JBool b) = b"
| "truthy (JNum n) = (n \<noteq> 0)"
| "truthy (JStr s) = (s \<noteq> [])"
| "truthy (JArr xs) = True"
| "truthy (JObj kvs) = True"

text \<open>A string-valued option that may be absent: absent and the empty string are falsy.\<close>

fun truthy_str :: "string option \<Rightarrow> bool" where
  "truthy_str None = False"
| "truthy_str (Some s) = (s \<noteq> [])"

text \<open>What a template literal prints for a string that may be \<^verbatim>\<open>undefined\<close>.\<close>

fun template :: "string option \<Rightarrow> string" where
  "template None = ''undefined''"
| "template (Some s) = s"

definition digit :: "nat \<Rightarrow> char" where
  "digit n = ''0123456789'' ! (n mod 10)"

fun show_nat :: "nat \<Rightarrow> string" where
  "show_nat n = (if n < 10 then [digit n] else show_nat (n div 10) @ [digit (n mod 10)])"

subsection \<open>Data of the service\<close>

record source =
  src_filename :: string
  src_content :: string

datatype files_entry = FsPath string | FileObject string

type_synonym archive = "(string \<times> string) list"

record source_bundle =
  content :: string
  filename :: string
  extension :: string

record 'a response =
  res_errors :: "string list option"
  res_data_errors :: "string list option"
  res_message :: "string option"
  res_data :: 'a

record instrumentation_error =
  ie_message :: string
  ie_fileName :: string
  ie_lineNumber :: nat

record profiling_run =
  pr_id :: string
  pr_state :: string
  pr_instrumentationErrors :: "instrumentation_error list"

text \<open>
  One entry of \<^verbatim>\<open>errorMessages\<close>: its message, its own \<^verbatim>\<open>filename\<close> property when
  it has one, and its remaining properties.
\<close>

record error_message =
  em_message :: string
  em_filename :: "string option"
  em_fields :: "(string \<times> jsvalue) list"

record protection_source =
  ps_filename :: string
  ps_errorMessages :: "error_message list option"

record source_error =
  se_filename :: string
  se_message :: string
  se_fields :: "(string \<times> jsvalue) list"

record deprecation =
  dep_type :: "string option"
  dep_entity :: "string option"

record protection =
  p_state :: string
  p_bail :: bool
  p_errorMessage :: "string option"
  p_growthWarning :: bool
  p_deprecations :: "deprecation list option"
  p_sources :: "protection_source list"

record protection_response =
  pp_errors :: "string list option"
  pp_applicationProtection :: protection

datatype params = ParamsArray "jsvalue list" | ParamsObject "(string \<times> jsvalue) list"

record update_data =
  ud_id :: "string option"
  ud_debugMode :: bool
  ud_tolerateMinification :: jsvalue
  ud_codeHardeningThreshold :: jsvalue
  ud_parameters :: "jsvalue list option"
  ud_areSubscribersOrdered :: jsvalue
  ud_applicationTypes :: jsvalue
  ud_useRecommendedOrder :: jsvalue
  ud_languageSpecifications :: jsvalue
  ud_sourceMaps :: jsvalue
  ud_useProfilingData :: jsvalue
  ud_profilingDataMode :: jsvalue
  ud_useAppClassification :: jsvalue
  ud_browsers :: jsvalue

record protection_options =
  po_bail :: bool
  po_randomizationSeed :: jsvalue
  po_source :: "source_bundle option"
  po_inputSymbolTable :: "string option"
  po_updateData :: update_data

datatype destination = DestDir string | DestCallback nat

subsection \<open>Errors, events and outcomes\<close>

datatype http_error = HttpError "int option"

fun statusCode :: "http_error \<Rightarrow> int option" where
  "statusCode (HttpError c) = c"

datatype error =
    Error string
  | TypeError string
  | Rejected http_error

datatype level = Log | Warn | Err

datatype console_arg =
    Text string
  | ErrorsValue "string list"
  | SourcesErrorsJson "source_error list"
  | ResponseValue

datatype event =
    NetGetProfilingRun "string option"
  | NetPatchProfilingRun string string
  | NetPostProfilingRun "string option"
  | NetGetInstrumentation string
  | NetDownloadInstrumented string
  | NetRemoveSource string "string option"
  | NetAddSource "string option" source_bundle
  | NetIntoObjectType update_data
  | NetUpdateApplication update_data
  | NetIntrospectMutation string
  | NetCreateProtection "string option" protection_options
  | NetDefaultFragments
  | NetGetProtection "string option" string
  | NetDownloadProtection string
  | Delay nat
  | Console level "console_arg list"
  | GlobSync string
  | ZipFiles "files_entry list" "string option"
  | ZipSources "source list"
  | ReadFileSync string
  | Unzip string "destination option" bool

datatype 'a outcome = Return 'a | Throw error | Pending

type_synonym 'a act = "event list \<times> 'a outcome"

definition ret :: "'a \<Rightarrow> 'a act" where
  "ret x = ([], Return x)"

definition throw :: "error \<Rightarrow> 'a act" where
  "throw e = ([], Throw e)"

definition emit :: "event \<Rightarrow> unit act" where
  "emit ev = ([ev], Return ())"

definition andThen :: "'a act \<Rightarrow> ('a \<Rightarrow> 'b act) \<Rightarrow> 'b act" where
  "andThen m f =
     (case m of
        (t, Return x) \<Rightarrow> (case f x of (t', r) \<Rightarrow> (t @ t', r))
      | (t, Throw e) \<Rightarrow> (t, Throw e)
      | (t, Pending) \<Rightarrow> (t, Pending))"

text \<open>A transport call: the request is recorded, a rejection is thrown to the caller.\<close>

definition call :: "event \<Rightarrow> http_error + 'a \<Rightarrow> 'a act" where
  "call ev r = ([ev], case r of Inl e \<Rightarrow> Throw (Rejected e) | Inr v \<Rightarrow> Return v)"

text \<open>A call into a local helper (archive codec, file system) that may throw.\<close>

definition local_call :: "event \<Rightarrow> error + 'a \<Rightarrow> 'a act" where
  "local_call ev r = ([ev], case r of Inl e \<Rightarrow> Throw e | Inr v \<Rightarrow> Return v)"

text \<open>\<^verbatim>\<open>.catch(e => { if (e.statusCode !== 404) throw e; })\<close> on a transport call.\<close>

definition catch404 :: "'a act \<Rightarrow> 'a option act" where
  "catch404 m =
     (case m of
        (t, Return x) \<Rightarrow> (t, Return (Some x))
      | (t, Throw (Rejected e)) \<Rightarrow>
          (if statusCode e \<noteq> Some 404 then (t, Throw (Rejected e)) else (t, Return None))
      | (t, Throw e) \<Rightarrow> (t, Throw e)
      | (t, Pending) \<Rightarrow> (t, Pending))"

definition APP_URL :: string where
  "APP_URL = ''https://app.jscrambler.com''"

definition debug_log :: "bool \<Rightarrow> string \<Rightarrow> unit act" where
  "debug_log debug msg = (if debug then emit (Console Log [Text msg]) else ret ())"

subsection \<open>errorHandler and printSourcesErrors\<close>

definition errorHandler :: "'a response \<Rightarrow> 'a response act" where
  "errorHandler res =
     (case res_errors res of
        Some (e # es) \<Rightarrow> throw (Error (''Error: '' @ e))
      | _ \<Rightarrow>
        (case res_data_errors res of
           Some ms \<Rightarrow> (map (\<lambda>m. Console Err [Text m]) ms, Throw (Error ''GraphQL Query Error''))
         | None \<Rightarrow>
           (if truthy_str (res_message res)
            then throw (Error (''Error: '' @ template (res_message res)))
            else ret res)))"

definition printSourcesErrors :: "source_error list \<Rightarrow> unit act" where
  "printSourcesErrors errors =
     ([Console Err [Text ''Application sources errors:''],
       Console Err [SourcesErrorsJson errors],
       Console Err [Text '''']], Return ())"

subsection \<open>The polling loops\<close>

text \<open>
  \<^verbatim>\<open>pollProtection\<close> and \<^verbatim>\<open>pollInstrumentation\<close> fetch until the state is
  terminal.  The answers to the successive fetches are a list; when the list is used up
  the fetch has been issued and is never answered, so the loop has not returned.
\<close>

fun pollProtection ::
  "string option \<Rightarrow> string \<Rightarrow> (http_error + protection_response) list \<Rightarrow> protection act" where
  "pollProtection applicationId protectionId [] =
     ([NetGetProtection applicationId protectionId], Pending)"
| "pollProtection applicationId protectionId (r # rs) =
     andThen (call (NetGetProtection applicationId protectionId) r) (\<lambda>applicationProtection.
       case pp_errors applicationProtection of
         Some errs \<Rightarrow>
           ([Console Log [Text ''Error polling protection'', ErrorsValue errs]],
            Throw (Error (''Protection failed. For more information visit: '' @ APP_URL @ ''.'')))
       | None \<Rightarrow>
           (let state = p_state (pp_applicationProtection applicationProtection) in
            if state \<noteq> ''finished'' \<and> state \<noteq> ''errored'' \<and> state \<noteq> ''canceled''
            then andThen (emit (Delay 500)) (\<lambda>_. pollProtection applicationId protectionId rs)
            else if state = ''canceled''
            then throw (Error ''Protection canceled by user'')
            else ret (pp_applicationProtection applicationProtection)))"

fun pollInstrumentation ::
  "string \<Rightarrow> (http_error + profiling_run response) list \<Rightarrow> profiling_run response act" where
  "pollInstrumentation instrumentationId [] =
     ([NetGetInstrumentation instrumentationId], Pending)"
| "pollInstrumentation instrumentationId (r # rs) =
     andThen (call (NetGetInstrumentation instrumentationId) r) (\<lambda>instrumentation.
       let state = pr_state (res_data instrumentation) in
       if state = ''DELETED'' then throw (Error ''Protection canceled by user'')
       else if state = ''FAILED_INSTRUMENTATION'' then
         (case res_errors instrumentation of
            None \<Rightarrow> throw (TypeError ''instrumentation.errors is undefined'')
          | Some errs \<Rightarrow>
              errorHandler (instrumentation\<lparr>res_errors := Some (errs @
                map (\<lambda>e. ie_message e @ '' at '' @ ie_fileName e @ '':'' @ show_nat (ie_lineNumber e))
                    (pr_instrumentationErrors (res_data instrumentation)))\<rparr>))
       else if state = ''FINISHED_INSTRUMENTATION'' then ret instrumentation
       else andThen (emit (Delay 500)) (\<lambda>_. pollInstrumentation instrumentationId rs))"

subsection \<open>Configuration and scripted answers\<close>

text \<open>
  The fields of \<^verbatim>\<open>finalConfig\<close> that the workflows read.  Fields that the
  code only tests for truthiness or for \<^verbatim>\<open>undefined\<close> and passes on are
  JavaScript values; \<^verbatim>\<open>removeProfilingData\<close> and \<^verbatim>\<open>skipSources\<close> are
  read for truthiness only.
\<close>

record config =
  cfg_applicationId :: "string option"
  cfg_sources :: "source list option"
  cfg_filesSrc :: "files_entry list option"
  cfg_filesDest :: "string option"
  cfg_stream :: "bool option"
  cfg_cwd :: "string option"
  cfg_params :: "params option"
  cfg_applicationTypes :: jsvalue
  cfg_languageSpecifications :: jsvalue
  cfg_sourceMaps :: jsvalue
  cfg_randomizationSeed :: jsvalue
  cfg_areSubscribersOrdered :: jsvalue
  cfg_useRecommendedOrder :: jsvalue
  cfg_bail :: "bool option"
  cfg_debugMode :: jsvalue
  cfg_tolerateMinification :: jsvalue
  cfg_codeHardeningThreshold :: jsvalue
  cfg_useProfilingData :: jsvalue
  cfg_browsers :: jsvalue
  cfg_useAppClassification :: jsvalue
  cfg_profilingDataMode :: jsvalue
  cfg_removeProfilingData :: bool
  cfg_skipSources :: bool
  cfg_inputSymbolTable :: "string option"

text \<open>
  The answers of the collaborators: the transport (one answer per endpoint the
  workflows call once, a list for the endpoints that are polled), the introspection
  helpers, \<^verbatim>\<open>glob.sync\<close>, the archive codec and \<^verbatim>\<open>fs.readFileSync\<close>.
  \<^verbatim>\<open>debug\<close> is the module constant \<^verbatim>\<open>!!process.env.DEBUG\<close>.
\<close>

record env =
  debug :: bool
  getApplicationProfiling_res :: "http_error + profiling_run response"
  patchProfilingRun_res :: "http_error + unit"
  postProfilingRun_res :: "http_error + profiling_run response"
  getInstrumentation_res :: "(http_error + profiling_run response) list"
  downloadApplicationInstrumented_res :: "http_error + string response"
  removeSourceFromApplication_res :: "http_error + unit response"
  addApplicationSource_res :: "http_error + unit response"
  glob_sync :: "string \<Rightarrow> string list"
  zip_res :: "files_entry list \<Rightarrow> string option \<Rightarrow> error + archive"
  generate_base64 :: "archive \<Rightarrow> string"
  intoObjectType_res :: "update_data \<Rightarrow> error + update_data"
  updateApplication_res :: "http_error + unit response"
  readFileSync_res :: "string \<Rightarrow> error + string"
  introspection_mutation_res :: "error + unit"
  createApplicationProtection_res :: "http_error + string response"
  getProtectionDefaultFragments_res :: "error + unit"
  getApplicationProtection_res :: "(http_error + protection_response) list"
  downloadApplicationProtection_res :: "http_error + string response"
  unzip_res :: "error + unit"

subsection \<open>normalizeParameters\<close>

fun normalizeParameters :: "params \<Rightarrow> jsvalue list" where
  "normalizeParameters (ParamsArray xs) = xs"
| "normalizeParameters (ParamsObject kvs) =
     map (\<lambda>(name, options). JObj [(''name'', JStr name), (''options'', options)]) kvs"

fun keys_length :: "params \<Rightarrow> nat" where
  "keys_length (ParamsArray xs) = length xs"
| "keys_length (ParamsObject kvs) = length kvs"

fun isArray :: "params \<Rightarrow> bool" where
  "isArray (ParamsArray xs) = True"
| "isArray (ParamsObject kvs) = False"

subsection \<open>updateApplicationSources\<close>

text \<open>
  Modelled from the spec: \<^verbatim>\<open>zipSources\<close> lives in zip.js, which is not part of the
  sources at hand.  The spec says of inline sources that each filename and content pair
  is added verbatim and that no file-system access occurs, so the archive is the list
  of the pairs in their order.
\<close>

definition zipSources :: "source list \<Rightarrow> archive" where
  "zipSources sources = map (\<lambda>s. (src_filename s, src_content s)) sources"

text \<open>The loop over \<^verbatim>\<open>filesSrc\<close>: a string is expanded by \<^verbatim>\<open>glob.sync\<close>,
  anything else is pushed as it is.\<close>

fun expand_filesSrc :: "(string \<Rightarrow> string list) \<Rightarrow> files_entry list \<Rightarrow> files_entry list act" where
  "expand_filesSrc g [] = ret []"
| "expand_filesSrc g (FsPath pat # es) =
     andThen (emit (GlobSync pat)) (\<lambda>_.
     andThen (expand_filesSrc g es) (\<lambda>more. ret (map FsPath (g pat) @ more)))"
| "expand_filesSrc g (FileObject f # es) =
     andThen (expand_filesSrc g es) (\<lambda>more. ret (FileObject f # more))"

fun nonempty :: "'a list option \<Rightarrow> bool" where
  "nonempty None = False"
| "nonempty (Some xs) = (xs \<noteq> [])"

definition updateApplicationSources ::
  "env \<Rightarrow> string option \<Rightarrow> source list option \<Rightarrow> files_entry list option \<Rightarrow> string option \<Rightarrow>
   profiling_run response option \<Rightarrow> source_bundle option act" where
  "updateApplicationSources e applicationId sources filesSrc cwd appProfiling =
     andThen
       (if sources \<noteq> None \<or> nonempty filesSrc then
          (if (case appProfiling of None \<Rightarrow> False
               | Some ap \<Rightarrow> pr_state (res_data ap) = ''READY'')
           then throw (Error (''Ready profiling data PREVENTS source files from being UPDATED! '' @
                  ''Please add option *--remove-profiling-data* or *--skip-source* to continue.''))
           else andThen (call (NetRemoveSource [] applicationId) (removeSourceFromApplication_res e))
                  (\<lambda>removeSourceRes. andThen (errorHandler removeSourceRes) (\<lambda>_. ret ())))
        else ret ())
       (\<lambda>_.
     andThen
       (if nonempty filesSrc then
          andThen (expand_filesSrc (glob_sync e) (case filesSrc of None \<Rightarrow> [] | Some fs \<Rightarrow> fs))
            (\<lambda>filesSrc'.
          andThen (debug_log (debug e) ''Creating zip from source files'') (\<lambda>_.
          andThen (local_call (ZipFiles filesSrc' cwd) (zip_res e filesSrc' cwd)) (\<lambda>z.
            ret (Some z))))
        else
          (case sources of
             Some ss \<Rightarrow>
               andThen (debug_log (debug e) ''Creating zip from sources'') (\<lambda>_.
               andThen (emit (ZipSources ss)) (\<lambda>_. ret (Some (zipSources ss))))
           | None \<Rightarrow> ret None))
       (\<lambda>zipped.
          case zipped of
            None \<Rightarrow> ret None
          | Some z \<Rightarrow>
              andThen (debug_log (debug e) ''Adding sources to application'') (\<lambda>_.
              (let source = \<lparr>content = generate_base64 e z,
                             filename = ''application.zip'',
                             extension = ''zip''\<rparr>
               in andThen (call (NetAddSource applicationId source) (addApplicationSource_res e))
                    (\<lambda>res. andThen (errorHandler res) (\<lambda>_. ret (Some source)))))))"

subsection \<open>protectAndDownload\<close>

text \<open>
  The workflow is written in the order of the source, cut into the stretches of the
  function body: the two required-option checks, the replacement of the sources, the
  parameter update, the creation of the protection, the wait for it, the report of
  what the finished protection carries, and the download.  \<^verbatim>\<open>destCallback\<close> is the
  optional second argument; a callback is named by a number.
\<close>

definition effective_filesSrc :: "config \<Rightarrow> files_entry list option" where
  "effective_filesSrc cfg = (if cfg_sources cfg \<noteq> None then None else cfg_filesSrc cfg)"

definition effective_filesDest :: "config \<Rightarrow> nat option \<Rightarrow> string option" where
  "effective_filesDest cfg destCallback =
     (if destCallback \<noteq> None then None else cfg_filesDest cfg)"

text \<open>Lines 274 to 280, and the same lines 535 to 541 of \<^verbatim>\<open>instrumentAndDownload\<close>.\<close>

definition check_required :: "config \<Rightarrow> nat option \<Rightarrow> unit act" where
  "check_required cfg destCallback =
     (if \<not> truthy_str (cfg_applicationId cfg)
      then throw (Error ''Required *applicationId* not provided'')
      else if \<not> truthy_str (effective_filesDest cfg destCallback) \<and> destCallback = None
      then throw (Error ''Required *filesDest* not provided'')
      else ret ())"

definition deleteProfiling :: "env \<Rightarrow> string \<Rightarrow> unit act" where
  "deleteProfiling e profilingId =
     call (NetPatchProfilingRun profilingId ''DELETED'') (patchProfilingRun_res e)"

definition getApplicationProfiling :: "env \<Rightarrow> string option \<Rightarrow> profiling_run response act" where
  "getApplicationProfiling e applicationId =
     call (NetGetProfilingRun applicationId) (getApplicationProfiling_res e)"

text \<open>Lines 282 to 304.\<close>

definition protect_sources :: "env \<Rightarrow> config \<Rightarrow> source_bundle option act" where
  "protect_sources e cfg =
     (if \<not> cfg_skipSources cfg then
        andThen (catch404 (getApplicationProfiling e (cfg_applicationId cfg))) (\<lambda>appProfiling.
        andThen
          (case appProfiling of
             Some ap \<Rightarrow>
               (if cfg_removeProfilingData cfg then
                  andThen (deleteProfiling e (pr_id (res_data ap))) (\<lambda>_.
                    ret (Some (ap\<lparr>res_data := (res_data ap)\<lparr>pr_state := ''DELETED''\<rparr>\<rparr>)))
                else ret (Some ap))
           | None \<Rightarrow> ret None)
          (\<lambda>appProfiling.
             updateApplicationSources e (cfg_applicationId cfg) (cfg_sources cfg)
               (effective_filesSrc cfg) (cfg_cwd cfg) appProfiling))
      else andThen (emit (Console Log [Text ''Update source files SKIPPED''])) (\<lambda>_. ret None))"

text \<open>Lines 306 to 350: the object \<^verbatim>\<open>updateData\<close>, built assignment by assignment.\<close>

definition build_updateData :: "config \<Rightarrow> update_data" where
  "build_updateData cfg =
     (let u0 = \<lparr>ud_id = cfg_applicationId cfg,
                ud_debugMode = truthy (cfg_debugMode cfg),
                ud_tolerateMinification = cfg_tolerateMinification cfg,
                ud_codeHardeningThreshold = cfg_codeHardeningThreshold cfg,
                ud_parameters = None,
                ud_areSubscribersOrdered = JUndefined,
                ud_applicationTypes = JUndefined,
                ud_useRecommendedOrder = JUndefined,
                ud_languageSpecifications = JUndefined,
                ud_sourceMaps = JUndefined,
                ud_useProfilingData = JUndefined,
                ud_profilingDataMode = JUndefined,
                ud_useAppClassification = JUndefined,
                ud_browsers = JUndefined\<rparr>;
          u1 = (case cfg_params cfg of
                  None \<Rightarrow> u0
                | Some ps \<Rightarrow>
                    if keys_length ps \<noteq> 0
                    then u0\<lparr>ud_parameters := Some (normalizeParameters ps),
                            ud_areSubscribersOrdered := JBool (isArray ps)\<rparr>
                    else u0);
          u2 = (if cfg_areSubscribersOrdered cfg \<noteq> JUndefined
                then u1\<lparr>ud_areSubscribersOrdered := cfg_areSubscribersOrdered cfg\<rparr> else u1);
          u3 = (if truthy (cfg_applicationTypes cfg)
                then u2\<lparr>ud_applicationTypes := cfg_applicationTypes cfg\<rparr> else u2);
          u4 = (if cfg_useRecommendedOrder cfg \<noteq> JUndefined
                then u3\<lparr>ud_useRecommendedOrder := cfg_useRecommendedOrder cfg\<rparr> else u3);
          u5 = (if truthy (cfg_languageSpecifications cfg)
                then u4\<lparr>ud_languageSpecifications := cfg_languageSpecifications cfg\<rparr> else u4);
          u6 = (if cfg_sourceMaps cfg \<noteq> JUndefined
                then u5\<lparr>ud_sourceMaps := cfg_sourceMaps cfg\<rparr> else u5);
          u7 = (if cfg_useProfilingData cfg \<noteq> JUndefined
                then u6\<lparr>ud_useProfilingData := cfg_useProfilingData cfg\<rparr> else u6);
          u8 = (if cfg_profilingDataMode cfg \<noteq> JUndefined
                then u7\<lparr>ud_profilingDataMode := cfg_profilingDataMode cfg\<rparr> else u7);
          u9 = (if cfg_useAppClassification cfg \<noteq> JUndefined
                then u8\<lparr>ud_useAppClassification := cfg_useAppClassification cfg\<rparr> else u8)
      in (if truthy (cfg_browsers cfg) then u9\<lparr>ud_browsers := cfg_browsers cfg\<rparr> else u9))"

text \<open>The condition of lines 352 to 358.\<close>

definition update_needed :: "update_data \<Rightarrow> bool" where
  "update_needed u =
     (ud_parameters u \<noteq> None \<or> truthy (ud_applicationTypes u) \<or>
      truthy (ud_languageSpecifications u) \<or> truthy (ud_browsers u) \<or>
      ud_areSubscribersOrdered u \<noteq> JUndefined)"

text \<open>Lines 352 to 377.\<close>

definition protect_update :: "env \<Rightarrow> update_data \<Rightarrow> unit act" where
  "protect_update e updateData =
     (if update_needed updateData then
        andThen (debug_log (debug e) ''Updating parameters of protection'') (\<lambda>_.
        andThen (local_call (NetIntoObjectType updateData) (intoObjectType_res e updateData))
          (\<lambda>applicationUpdate.
        andThen (call (NetUpdateApplication applicationUpdate) (updateApplication_res e))
          (\<lambda>updateApplicationRes.
        andThen (if debug e
                 then ([Console Log [Text ''Finished updating parameters of protection''],
                        Console Err [ResponseValue]], Return ())
                 else ret ()) (\<lambda>_.
        andThen (errorHandler updateApplicationRes) (\<lambda>_. ret ())))))
      else ret ())"

definition createApplicationProtection ::
  "env \<Rightarrow> string option \<Rightarrow> protection_options \<Rightarrow> string response act" where
  "createApplicationProtection e applicationId protectionOptions =
     andThen (local_call (NetIntrospectMutation ''createApplicationProtection'')
                (introspection_mutation_res e)) (\<lambda>_.
       call (NetCreateProtection applicationId protectionOptions)
         (createApplicationProtection_res e))"

text \<open>Lines 379 to 402; the result is \<^verbatim>\<open>protectionId\<close>.\<close>

definition protect_create ::
  "env \<Rightarrow> config \<Rightarrow> update_data \<Rightarrow> source_bundle option \<Rightarrow> string act" where
  "protect_create e cfg updateData source =
     andThen (debug_log (debug e) ''Creating Application Protection'') (\<lambda>_.
     (let protectionOptions =
            \<lparr>po_bail = (case cfg_bail cfg of None \<Rightarrow> True | Some b \<Rightarrow> b),
             po_randomizationSeed = cfg_randomizationSeed cfg,
             po_source = source,
             po_inputSymbolTable = cfg_inputSymbolTable cfg,
             po_updateData = updateData\<lparr>ud_id := None\<rparr>\<rparr>
      in
      andThen
        (if truthy_str (cfg_inputSymbolTable cfg) then
           andThen (local_call (ReadFileSync (template (cfg_inputSymbolTable cfg)))
                      (readFileSync_res e (template (cfg_inputSymbolTable cfg))))
             (\<lambda>inputSymbolTableContents.
                ret (protectionOptions\<lparr>po_inputSymbolTable := Some inputSymbolTableContents\<rparr>))
         else ret protectionOptions)
        (\<lambda>protectionOptions.
      andThen (createApplicationProtection e (cfg_applicationId cfg) protectionOptions)
        (\<lambda>createApplicationProtectionRes.
      andThen (errorHandler createApplicationProtectionRes) (\<lambda>_.
        ret (res_data createApplicationProtectionRes))))))"

text \<open>Lines 403 to 408: the default fragments are fetched, then the protection is polled.\<close>

definition protect_poll :: "env \<Rightarrow> config \<Rightarrow> string \<Rightarrow> protection act" where
  "protect_poll e cfg protectionId =
     andThen (local_call NetDefaultFragments (getProtectionDefaultFragments_res e)) (\<lambda>_.
       pollProtection (cfg_applicationId cfg) protectionId (getApplicationProtection_res e))"

fun deprecation_warning :: "deprecation \<Rightarrow> event list" where
  "deprecation_warning d =
     (if dep_type d = Some ''Transformation'' then
        [Console Warn [Text (''Warning: '' @ template (dep_type d) @ '' '' @ template (dep_entity d) @
           '' is no longer maintained. Please consider removing it from your configuration.'')]]
      else if truthy_str (dep_type d) \<and> truthy_str (dep_entity d) then
        [Console Warn [Text (''Warning: '' @ template (dep_type d) @ '' '' @ template (dep_entity d) @
           '' is deprecated.'')]]
      else [])"

text \<open>Lines 409 to 428.\<close>

definition protect_warnings :: "env \<Rightarrow> protection \<Rightarrow> unit act" where
  "protect_warnings e protection =
     andThen (if p_growthWarning protection
              then emit (Console Warn [Text (''Warning: Your protected application has surpassed a '' @
                     ''reasonable file growth.'' @ [CHR 0x0A] @
                     ''For more information on what might have caused this, please see the '' @
                     ''Protection Report.'' @ [CHR 0x0A] @ ''Link: '' @ APP_URL @ ''.'')])
              else ret ()) (\<lambda>_.
     andThen (debug_log (debug e) ''Finished protecting'') (\<lambda>_.
       (case p_deprecations protection of
          None \<Rightarrow> ret ()
        | Some ds \<Rightarrow> (concat (map deprecation_warning ds), Return ()))))"

text \<open>
  Lines 430 to 441: the error messages of all sources.  Each becomes
  \<^verbatim>\<open>{filename: s.filename, ...e}\<close>: the spread comes last, so a \<^verbatim>\<open>filename\<close>
  property of the message itself replaces the file name of the source.
\<close>

definition sourcesErrors :: "protection \<Rightarrow> source_error list" where
  "sourcesErrors protection =
     concat (map (\<lambda>s.
       case ps_errorMessages s of
         None \<Rightarrow> []
       | Some ms \<Rightarrow>
           if length ms > 0
           then map (\<lambda>m. \<lparr>se_filename = (case em_filename m of
                                            None \<Rightarrow> ps_filename s | Some f \<Rightarrow> f),
                           se_message = em_message m,
                           se_fields = em_fields m\<rparr>) ms
           else []) (p_sources protection))"

text \<open>The console line of lines 456 to 458 for one error.\<close>

definition nonfatal_warning :: "source_error \<Rightarrow> event" where
  "nonfatal_warning err =
     Console Warn [Text (''Non-fatal error: '' @ [CHR 0x22] @ se_message err @ [CHR 0x22] @
       '' in '' @ se_filename err)]"

text \<open>Lines 443 to 460.\<close>

definition protect_classify :: "protection \<Rightarrow> unit act" where
  "protect_classify protection =
     (if p_state protection = ''errored'' then
        andThen ([Console Err [Text ''Global protection errors:''],
                  Console Err [Text (''- '' @ template (p_errorMessage protection))],
                  Console Err [Text '''']], Return ()) (\<lambda>_.
        andThen (if length (sourcesErrors protection) > 0
                 then printSourcesErrors (sourcesErrors protection) else ret ()) (\<lambda>_.
          throw (Error (''Protection failed. For more information visit: '' @ APP_URL @ ''.''))))
      else if length (sourcesErrors protection) > 0 then
        (if p_bail protection then
           andThen (printSourcesErrors (sourcesErrors protection)) (\<lambda>_.
             throw (Error ''Your protection has failed.''))
         else
           (map nonfatal_warning (sourcesErrors protection), Return ()))
      else ret ())"

definition unzip_destination :: "config \<Rightarrow> nat option \<Rightarrow> destination option" where
  "unzip_destination cfg destCallback =
     (if truthy_str (effective_filesDest cfg destCallback)
      then map_option DestDir (effective_filesDest cfg destCallback)
      else map_option DestCallback destCallback)"

definition stream_flag :: "config \<Rightarrow> bool" where
  "stream_flag cfg = (case cfg_stream cfg of None \<Rightarrow> True | Some b \<Rightarrow> b)"

text \<open>Lines 462 to 484.\<close>

definition protect_download :: "env \<Rightarrow> config \<Rightarrow> nat option \<Rightarrow> string \<Rightarrow> string act" where
  "protect_download e cfg destCallback protectionId =
     andThen (debug_log (debug e) ''Downloading protection result'') (\<lambda>_.
     andThen (call (NetDownloadProtection protectionId) (downloadApplicationProtection_res e))
       (\<lambda>download.
     andThen (errorHandler download) (\<lambda>_.
     andThen (debug_log (debug e) ''Unzipping files'') (\<lambda>_.
     andThen (local_call (Unzip (res_data download) (unzip_destination cfg destCallback)
                (stream_flag cfg)) (unzip_res e)) (\<lambda>_.
     andThen (debug_log (debug e) ''Finished unzipping files'') (\<lambda>_.
     andThen (emit (Console Log [Text protectionId])) (\<lambda>_.
       ret protectionId)))))))"

text \<open>Everything up to and including the wait for the protection (lines 213 to 408).\<close>

definition protect_submit :: "env \<Rightarrow> config \<Rightarrow> nat option \<Rightarrow> (string \<times> protection) act" where
  "protect_submit e cfg destCallback =
     andThen (check_required cfg destCallback) (\<lambda>_.
     andThen (protect_sources e cfg) (\<lambda>source.
     andThen (protect_update e (build_updateData cfg)) (\<lambda>_.
     andThen (protect_create e cfg (build_updateData cfg) source) (\<lambda>protectionId.
     andThen (protect_poll e cfg protectionId) (\<lambda>protection.
       ret (protectionId, protection))))))"

definition protectAndDownload :: "env \<Rightarrow> config \<Rightarrow> nat option \<Rightarrow> string act" where
  "protectAndDownload e cfg destCallback =
     andThen (protect_submit e cfg destCallback) (\<lambda>(protectionId, protection).
     andThen (protect_warnings e protection) (\<lambda>_.
     andThen (protect_classify protection) (\<lambda>_.
       protect_download e cfg destCallback protectionId)))"

subsection \<open>startInstrumentation, instrumentAndDownload and setProfilingState\<close>

definition startInstrumentation :: "env \<Rightarrow> string option \<Rightarrow> profiling_run response act" where
  "startInstrumentation e applicationId =
     andThen (catch404 (getApplicationProfiling e applicationId)) (\<lambda>instrumentation.
     andThen (case instrumentation of
                Some i \<Rightarrow> deleteProfiling e (pr_id (res_data i))
              | None \<Rightarrow> ret ()) (\<lambda>_.
       call (NetPostProfilingRun applicationId) (postProfilingRun_res e)))"

definition instrumentAndDownload :: "env \<Rightarrow> config \<Rightarrow> nat option \<Rightarrow> string act" where
  "instrumentAndDownload e cfg destCallback =
     andThen (check_required cfg destCallback) (\<lambda>_.
     andThen
       (if \<not> cfg_skipSources cfg then
          andThen (updateApplicationSources e (cfg_applicationId cfg) (cfg_sources cfg)
                     (effective_filesSrc cfg) (cfg_cwd cfg) None) (\<lambda>_. ret ())
        else emit (Console Log [Text ''Update source files SKIPPED''])) (\<lambda>_.
     andThen (startInstrumentation e (cfg_applicationId cfg)) (\<lambda>instrumentation.
     andThen (errorHandler instrumentation) (\<lambda>_.
     andThen (pollInstrumentation (pr_id (res_data instrumentation)) (getInstrumentation_res e))
       (\<lambda>instrumentation.
     andThen (debug_log (debug e) (''Finished instrumention with id '' @
                pr_id (res_data instrumentation) @ ''. Downloading...'')) (\<lambda>_.
     andThen (call (NetDownloadInstrumented (pr_id (res_data instrumentation)))
                (downloadApplicationInstrumented_res e)) (\<lambda>download.
     andThen (errorHandler download) (\<lambda>_.
     andThen (debug_log (debug e) ''Unzipping files'') (\<lambda>_.
     andThen (local_call (Unzip (res_data download) (unzip_destination cfg destCallback)
                (stream_flag cfg)) (unzip_res e)) (\<lambda>_.
     andThen (debug_log (debug e) ''Finished unzipping files'') (\<lambda>_.
     andThen (emit (Console Warn [Text ([CHR 0x0A] @
                ''      WARNING: DO NOT SEND THIS CODE TO PRODUCTION AS IT IS NOT PROTECTED'' @
                [CHR 0x0A] @ ''    '')])) (\<lambda>_.
     andThen (emit (Console Log [Text (''Application '' @ template (cfg_applicationId cfg) @
                '' was instrumented. Bootstrap your application, go to '' @ APP_URL @
                '' and start profiling!'')])) (\<lambda>_.
       ret (pr_id (res_data instrumentation)))))))))))))))"

definition setProfilingState :: "env \<Rightarrow> config \<Rightarrow> string \<Rightarrow> string \<Rightarrow> unit act" where
  "setProfilingState e cfg state label =
     andThen (catch404 (call (NetGetProfilingRun (cfg_applicationId cfg))
                (getApplicationProfiling_res e))) (\<lambda>instrumentation.
       case instrumentation of
         None \<Rightarrow>
           throw (Error ''There is no active profiling run. Instrument your application first.'')
       | Some i \<Rightarrow>
           (let previousState = pr_state (res_data i) in
            if previousState = state then
              emit (Console Log [Text (''Profiling was already '' @ label @ '' for application '' @
                template (cfg_applicationId cfg) @ ''.'')])
            else
              andThen (call (NetPatchProfilingRun (pr_id (res_data i)) state)
                         (patchProfilingRun_res e)) (\<lambda>_.
                emit (Console Log [Text (''Profiling was '' @ label @ '' for application '' @
                  template (cfg_applicationId cfg) @ ''.'')]))))"

subsection \<open>Reading a trace\<close>

fun is_network :: "event \<Rightarrow> bool" where
  "is_network (Delay n) = False"
| "is_network (Console l args) = False"
| "is_network (GlobSync pat) = False"
| "is_network (ZipFiles fs cwd) = False"
| "is_network (ZipSources ss) = False"
| "is_network (ReadFileSync path) = False"
| "is_network (Unzip d dest s) = False"
| "is_network ev = True"

fun is_download :: "event \<Rightarrow> bool" where
  "is_download (NetDownloadProtection i) = True"
| "is_download ev = False"


fun is_create :: "event \<Rightarrow> bool" where
  "is_create (NetCreateProtection a opts) = True"
| "is_create ev = False"

fun is_patch :: "event \<Rightarrow> bool" where
  "is_patch (NetPatchProfilingRun i s) = True"
| "is_patch ev = False"

fun is_delay :: "event \<Rightarrow> bool" where
  "is_delay (Delay n) = True"
| "is_delay ev = False"

fun is_remove_or_upload :: "event \<Rightarrow> bool" where
  "is_remove_or_upload (NetRemoveSource s a) = True"
| "is_remove_or_upload (NetAddSource a b) = True"
| "is_remove_or_upload ev = False"

fun is_file_system :: "event \<Rightarrow> bool" where
  "is_file_system (GlobSync pat) = True"
| "is_file_system (ZipFiles fs cwd) = True"
| "is_file_system (ReadFileSync path) = True"
| "is_file_system ev = False"

fun is_warning :: "event \<Rightarrow> bool" where
  "is_warning (Console Warn args) = True"
| "is_warning ev = False"

subsection \<open>Scripted answers used in the statements\<close>

text \<open>A fetch of the protection that is answered without transport or query errors.\<close>

definition fetched :: "protection \<Rightarrow> http_error + protection_response" where
  "fetched p = Inr \<lparr>pp_errors = None, pp_applicationProtection = p\<rparr>"

text \<open>A fetch of the profiling run that is answered with an empty error list.\<close>

definition ok_response :: "'a \<Rightarrow> 'a response" where
  "ok_response d = \<lparr>res_errors = Some [], res_data_errors = None, res_message = None, res_data = d\<rparr>"

definition fetched_run :: "profiling_run \<Rightarrow> http_error + profiling_run response" where
  "fetched_run r = Inr (ok_response r)"

definition terminal_state :: "string \<Rightarrow> bool" where
  "terminal_state s = (s = ''finished'' \<or> s = ''errored'' \<or> s = ''canceled'')"

definition terminal_run_state :: "string \<Rightarrow> bool" where
  "terminal_run_state s =
     (s = ''DELETED'' \<or> s = ''FAILED_INSTRUMENTATION'' \<or> s = ''FINISHED_INSTRUMENTATION'')"

definition snapshot :: "string \<Rightarrow> protection" where
  "snapshot s = \<lparr>p_state = s, p_bail = True, p_errorMessage = None, p_growthWarning = False,
     p_deprecations = None, p_sources = []\<rparr>"

definition run_snapshot :: "string \<Rightarrow> profiling_run" where
  "run_snapshot s = \<lparr>pr_id = ''run1'', pr_state = s, pr_instrumentationErrors = []\<rparr>"

text \<open>An answer that \<^verbatim>\<open>errorHandler\<close> lets through: no errors, no error list in the
  data, no message.\<close>

definition passes :: "'a response \<Rightarrow> bool" where
  "passes r =
     ((res_errors r = None \<or> res_errors r = Some []) \<and> res_data_errors r = None \<and>
      (res_message r = None \<or> res_message r = Some []))"

fun is_console :: "event \<Rightarrow> bool" where
  "is_console (Console l args) = True"
| "is_console ev = False"

text \<open>
  A service where nothing goes wrong: no profiling run exists (the probe is answered
  404), every call is answered without errors, the protection is finished at the first
  fetch, and the instrumentation likewise.
\<close>

definition quiet_env :: env where
  "quiet_env =
     \<lparr>debug = False,
      getApplicationProfiling_res = Inl (HttpError (Some 404)),
      patchProfilingRun_res = Inr (),
      postProfilingRun_res = Inr (ok_response (run_snapshot ''CREATED'')),
      getInstrumentation_res = [fetched_run (run_snapshot ''FINISHED_INSTRUMENTATION'')],
      downloadApplicationInstrumented_res = Inr (ok_response ''instrumented-bytes''),
      removeSourceFromApplication_res = Inr (ok_response ()),
      addApplicationSource_res = Inr (ok_response ()),
      glob_sync = (\<lambda>pat. [pat]),
      zip_res = (\<lambda>fs cwd. Inr []),
      generate_base64 = (\<lambda>z. concat (map (\<lambda>(n, c). n @ '':'' @ c @ '';'') z)),
      intoObjectType_res = (\<lambda>u. Inr u),
      updateApplication_res = Inr (ok_response ()),
      readFileSync_res = (\<lambda>path. Inr ''symbols''),
      introspection_mutation_res = Inr (),
      createApplicationProtection_res = Inr (ok_response ''p1''),
      getProtectionDefaultFragments_res = Inr (),
      getApplicationProtection_res = [fetched (snapshot ''finished'')],
      downloadApplicationProtection_res = Inr (ok_response ''protected-bytes''),
      unzip_res = Inr ()\<rparr>"

text \<open>The smallest configuration that passes the required-option checks.\<close>

definition basic_config :: config where
  "basic_config =
     \<lparr>cfg_applicationId = Some ''app'',
      cfg_sources = None,
      cfg_filesSrc = None,
      cfg_filesDest = Some ''dist'',
      cfg_stream = None,
      cfg_cwd = None,
      cfg_params = None,
      cfg_applicationTypes = JUndefined,
      cfg_languageSpecifications = JUndefined,
      cfg_sourceMaps = JUndefined,
      cfg_randomizationSeed = JUndefined,
      cfg_areSubscribersOrdered = JUndefined,
      cfg_useRecommendedOrder = JUndefined,
      cfg_bail = None,
      cfg_debugMode = JUndefined,
      cfg_tolerateMinification = JUndefined,
      cfg_codeHardeningThreshold = JUndefined,
      cfg_useProfilingData = JUndefined,
      cfg_browsers = JUndefined,
      cfg_useAppClassification = JUndefined,
      cfg_profilingDataMode = JUndefined,
      cfg_removeProfilingData = False,
      cfg_skipSources = False,
      cfg_inputSymbolTable = None\<rparr>"

text \<open>The bundle that \<^verbatim>\<open>updateApplicationSources\<close> wraps around the encoded archive.\<close>

definition application_zip :: "string \<Rightarrow> source_bundle" where
  "application_zip c = \<lparr>content = c, filename = ''application.zip'', extension = ''zip''\<rparr>"

text \<open>A finished protection with one source that reports one error, under either bail flag.\<close>

definition failing_source :: protection_source where
  "failing_source =
     \<lparr>ps_filename = ''a.js'',
      ps_errorMessages = Some [\<lparr>em_message = ''x'', em_filename = None, em_fields = []\<rparr>]\<rparr>"

definition failing_protection :: "bool \<Rightarrow> protection" where
  "failing_protection b = (snapshot ''finished'')\<lparr>p_bail := b, p_sources := [failing_source]\<rparr>"

text \<open>
  The per-source errors of a protection as the claims speak of them: every message of
  every source, in the order of the sources and of their messages, each with its
  message text and the file it is reported for.
\<close>

definition reported_errors :: "protection \<Rightarrow> source_error list" where
  "reported_errors p =
     concat (map (\<lambda>s.
       map (\<lambda>m. \<lparr>se_filename = (case em_filename m of None \<Rightarrow> ps_filename s | Some f \<Rightarrow> f),
                   se_message = em_message m, se_fields = em_fields m\<rparr>)
         (case ps_errorMessages s of None \<Rightarrow> [] | Some ms \<Rightarrow> ms)) (p_sources p))"

text \<open>
  A finished protection with three sources: the first reports two errors, the second of
  which names a file of its own, the second has no error list, the third reports one.
\<close>

definition reporting_protection :: "bool \<Rightarrow> protection" where
  "reporting_protection b =
     (snapshot ''finished'')
       \<lparr>p_bail := b,
        p_sources :=
          [\<lparr>ps_filename = ''a.js'',
            ps_errorMessages =
              Some [\<lparr>em_message = ''x'', em_filename = None, em_fields = []\<rparr>,
                    \<lparr>em_message = ''y'', em_filename = Some ''other.js'', em_fields = []\<rparr>]\<rparr>,
           \<lparr>ps_filename = ''b.js'', ps_errorMessages = None\<rparr>,
           \<lparr>ps_filename = ''c.js'',
            ps_errorMessages =
              Some [\<lparr>em_message = ''z'', em_filename = None, em_fields = []\<rparr>]\<rparr>]\<rparr>"

text \<open>An errored protection that carries a global error message and no source errors.\<close>

definition errored_protection :: protection where
  "errored_protection = (snapshot ''errored'')\<lparr>p_errorMessage := Some ''boom''\<rparr>"







section \<open>Properties\<close>

subsection \<open>Sequencing\<close>

lemma andThen_Return [simp]: "andThen (t, Return x) f = (t @ fst (f x), snd (f x))"
  by (simp add: andThen_def split: prod.splits)

lemma andThen_Throw [simp]: "andThen (t, Throw e) f = (t, Throw e)"
  by (simp add: andThen_def)

lemma andThen_Pending [simp]: "andThen (t, Pending) f = (t, Pending)"
  by (simp add: andThen_def)

subsection \<open>The polling loops\<close>

lemma pollProtection_continue:
  "\<not> terminal_state (p_state p) \<Longrightarrow>
   pollProtection a i (fetched p # rs) =
     (NetGetProtection a i # Delay 500 # fst (pollProtection a i rs), snd (pollProtection a i rs))"
  by (simp add: fetched_def terminal_state_def call_def emit_def)

lemma pollProtection_returns:
  "p_state p = ''finished'' \<or> p_state p = ''errored'' \<Longrightarrow>
   pollProtection a i (fetched p # rs) = ([NetGetProtection a i], Return p)"
  by (auto simp add: fetched_def call_def ret_def)

lemma pollProtection_canceled:
  "p_state p = ''canceled'' \<Longrightarrow>
   pollProtection a i (fetched p # rs) =
     ([NetGetProtection a i], Throw (Error ''Protection canceled by user''))"
  by (simp add: fetched_def call_def throw_def)

lemma pollProtection_retries:
  "list_all (\<lambda>p. \<not> terminal_state (p_state p)) pre \<Longrightarrow>
   pollProtection a i (map fetched pre @ rs) =
     (concat (replicate (length pre) [NetGetProtection a i, Delay 500]) @
        fst (pollProtection a i rs),
      snd (pollProtection a i rs))"
proof (induction pre)
  case Nil
  show ?case by simp
next
  case (Cons p pre)
  then show ?case by (simp add: pollProtection_continue del: pollProtection.simps)
qed

lemma pollInstrumentation_continue:
  "\<not> terminal_run_state (pr_state r) \<Longrightarrow>
   pollInstrumentation i (fetched_run r # rs) =
     (NetGetInstrumentation i # Delay 500 # fst (pollInstrumentation i rs),
      snd (pollInstrumentation i rs))"
  by (simp add: fetched_run_def ok_response_def terminal_run_state_def call_def emit_def)

lemma pollInstrumentation_finished:
  "pr_state r = ''FINISHED_INSTRUMENTATION'' \<Longrightarrow>
   pollInstrumentation i (fetched_run r # rs) =
     ([NetGetInstrumentation i], Return (ok_response r))"
  by (simp add: fetched_run_def ok_response_def call_def ret_def)

lemma pollInstrumentation_deleted:
  "pr_state r = ''DELETED'' \<Longrightarrow>
   pollInstrumentation i (fetched_run r # rs) =
     ([NetGetInstrumentation i], Throw (Error ''Protection canceled by user''))"
  by (simp add: fetched_run_def ok_response_def call_def throw_def)

lemma pollInstrumentation_retries:
  "list_all (\<lambda>r. \<not> terminal_run_state (pr_state r)) pre \<Longrightarrow>
   pollInstrumentation i (map fetched_run pre @ rs) =
     (concat (replicate (length pre) [NetGetInstrumentation i, Delay 500]) @
        fst (pollInstrumentation i rs),
      snd (pollInstrumentation i rs))"
proof (induction pre)
  case Nil
  show ?case by simp
next
  case (Cons r pre)
  then show ?case by (simp add: pollInstrumentation_continue del: pollInstrumentation.simps)
qed

text \<open>
  C6.  Each fetched snapshot in a non-terminal state costs one wait of 500 ms before
  the next fetch, and nothing else waits: after \<open>n\<close> non-terminal snapshots the trace is
  \<open>n\<close> times a fetch followed by \<^verbatim>\<open>Delay 500\<close>, then the last fetch.  A
  \<^verbatim>\<open>finished\<close> snapshot then returns, a \<^verbatim>\<open>canceled\<close> one throws the
  "canceled by user" error; \<^verbatim>\<open>pollInstrumentation\<close> does the same with
  \<^verbatim>\<open>FINISHED_INSTRUMENTATION\<close> and \<^verbatim>\<open>DELETED\<close>.
\<close>

theorem poll_one_delay_per_retry:
  assumes "list_all (\<lambda>p. \<not> terminal_state (p_state p)) pre"
    and "list_all (\<lambda>r. \<not> terminal_run_state (pr_state r)) ipre"
  shows
    "(p_state p = ''finished'' \<longrightarrow>
        pollProtection a i (map fetched pre @ fetched p # rs) =
          (concat (replicate (length pre) [NetGetProtection a i, Delay 500]) @
             [NetGetProtection a i], Return p)) \<and>
     (p_state p = ''canceled'' \<longrightarrow>
        pollProtection a i (map fetched pre @ fetched p # rs) =
          (concat (replicate (length pre) [NetGetProtection a i, Delay 500]) @
             [NetGetProtection a i], Throw (Error ''Protection canceled by user''))) \<and>
     (pr_state r = ''FINISHED_INSTRUMENTATION'' \<longrightarrow>
        pollInstrumentation j (map fetched_run ipre @ fetched_run r # irs) =
          (concat (replicate (length ipre) [NetGetInstrumentation j, Delay 500]) @
             [NetGetInstrumentation j], Return (ok_response r))) \<and>
     (pr_state r = ''DELETED'' \<longrightarrow>
        pollInstrumentation j (map fetched_run ipre @ fetched_run r # irs) =
          (concat (replicate (length ipre) [NetGetInstrumentation j, Delay 500]) @
             [NetGetInstrumentation j], Throw (Error ''Protection canceled by user'')))"
  using assms
  by (simp add: pollProtection_retries pollInstrumentation_retries pollProtection_returns
      pollProtection_canceled pollInstrumentation_finished pollInstrumentation_deleted
      del: pollProtection.simps pollInstrumentation.simps)

theorem poll_one_delay_per_retry_witness:
  "pollProtection (Some ''app'') ''p1''
     [fetched (snapshot ''running''), fetched (snapshot ''running''),
      fetched (snapshot ''finished'')] =
     ([NetGetProtection (Some ''app'') ''p1'', Delay 500,
       NetGetProtection (Some ''app'') ''p1'', Delay 500,
       NetGetProtection (Some ''app'') ''p1''], Return (snapshot ''finished'')) \<and>
   pollProtection (Some ''app'') ''p1''
     [fetched (snapshot ''running''), fetched (snapshot ''canceled'')] =
     ([NetGetProtection (Some ''app'') ''p1'', Delay 500,
       NetGetProtection (Some ''app'') ''p1''], Throw (Error ''Protection canceled by user'')) \<and>
   pollInstrumentation ''run1''
     [fetched_run (run_snapshot ''CREATED''), fetched_run (run_snapshot ''DELETED'')] =
     ([NetGetInstrumentation ''run1'', Delay 500, NetGetInstrumentation ''run1''],
      Throw (Error ''Protection canceled by user''))"
  using poll_one_delay_per_retry [of "[snapshot ''running'', snapshot ''running'']" "[]"
          "snapshot ''finished''" "Some ''app''" "''p1''" "[]"]
        poll_one_delay_per_retry [of "[snapshot ''running'']" "[run_snapshot ''CREATED'']"
          "snapshot ''canceled''" "Some ''app''" "''p1''" "[]" "run_snapshot ''DELETED''"
          "''run1''" "[]"]
  by (simp add: snapshot_def run_snapshot_def terminal_state_def terminal_run_state_def
      del: pollProtection.simps pollInstrumentation.simps)

subsection \<open>Evaluating concrete runs\<close>

lemmas run_defs =
  protectAndDownload_def protect_submit_def check_required_def effective_filesDest_def
  effective_filesSrc_def protect_sources_def getApplicationProfiling_def deleteProfiling_def
  updateApplicationSources_def protect_update_def build_updateData_def update_needed_def
  protect_create_def createApplicationProtection_def protect_poll_def protect_warnings_def
  sourcesErrors_def protect_classify_def nonfatal_warning_def protect_download_def unzip_destination_def
  stream_flag_def printSourcesErrors_def errorHandler_def catch404_def call_def local_call_def
  emit_def ret_def throw_def debug_log_def zipSources_def instrumentAndDownload_def
  startInstrumentation_def setProfilingState_def
  quiet_env_def basic_config_def ok_response_def fetched_def fetched_run_def snapshot_def
  run_snapshot_def Let_def

lemma errorHandler_passes: "passes r \<Longrightarrow> errorHandler r = ([], Return r)"
  by (auto simp: passes_def errorHandler_def ret_def split: option.splits list.splits)

lemma fst_andThen:
  "fst (andThen m f) = fst m @ (case snd m of Return x \<Rightarrow> fst (f x) | _ \<Rightarrow> [])"
  by (cases m; cases "snd m") auto

lemma snd_andThen:
  "snd (andThen m f) =
     (case snd m of Return x \<Rightarrow> snd (f x) | Throw e \<Rightarrow> Throw e | Pending \<Rightarrow> Pending)"
  by (cases m; cases "snd m") auto

subsection \<open>The required options\<close>

text \<open>
  C4.  A configuration without a truthy \<^verbatim>\<open>applicationId\<close>, and a configuration
  with neither a truthy \<^verbatim>\<open>filesDest\<close> nor a destination callback, makes both
  \<^verbatim>\<open>protectAndDownload\<close> and \<^verbatim>\<open>instrumentAndDownload\<close> throw the
  "Required ... not provided" error with an empty trace: nothing has been sent, printed
  or read before the error.  When both options are missing the error names
  \<^verbatim>\<open>applicationId\<close>, which is checked first.
\<close>

theorem required_options_checked_first:
  "(\<not> truthy_str (cfg_applicationId cfg) \<longrightarrow>
      protectAndDownload e cfg cb =
        ([], Throw (Error ''Required *applicationId* not provided'')) \<and>
      instrumentAndDownload e cfg cb =
        ([], Throw (Error ''Required *applicationId* not provided''))) \<and>
   (\<not> truthy_str (cfg_filesDest cfg) \<and> cb = None \<longrightarrow>
      protectAndDownload e cfg cb =
        ([], Throw (Error (if truthy_str (cfg_applicationId cfg)
                           then ''Required *filesDest* not provided''
                           else ''Required *applicationId* not provided''))) \<and>
      instrumentAndDownload e cfg cb =
        ([], Throw (Error (if truthy_str (cfg_applicationId cfg)
                           then ''Required *filesDest* not provided''
                           else ''Required *applicationId* not provided''))))"
  by (simp add: protectAndDownload_def protect_submit_def instrumentAndDownload_def
      check_required_def effective_filesDest_def throw_def)

theorem required_options_checked_first_witness:
  "protectAndDownload quiet_env (basic_config\<lparr>cfg_applicationId := None\<rparr>) None =
     ([], Throw (Error ''Required *applicationId* not provided'')) \<and>
   instrumentAndDownload quiet_env (basic_config\<lparr>cfg_applicationId := Some []\<rparr>) (Some 0) =
     ([], Throw (Error ''Required *applicationId* not provided'')) \<and>
   protectAndDownload quiet_env (basic_config\<lparr>cfg_filesDest := None\<rparr>) None =
     ([], Throw (Error ''Required *filesDest* not provided'')) \<and>
   instrumentAndDownload quiet_env (basic_config\<lparr>cfg_filesDest := None\<rparr>) None =
     ([], Throw (Error ''Required *filesDest* not provided''))"
  using required_options_checked_first
          [of "basic_config\<lparr>cfg_applicationId := None\<rparr>" quiet_env None]
        required_options_checked_first
          [of "basic_config\<lparr>cfg_applicationId := Some []\<rparr>" quiet_env "Some 0"]
        required_options_checked_first
          [of "basic_config\<lparr>cfg_filesDest := None\<rparr>" quiet_env None]
  by (simp add: basic_config_def)

subsection \<open>Ready profiling data\<close>

text \<open>
  C5.  When the required options are there, the sources are not skipped, the probe
  for the profiling run is answered with a run in state \<^verbatim>\<open>READY\<close>,
  \<^verbatim>\<open>removeProfilingData\<close> is not set, and sources are supplied (inline, or a
  non-empty \<^verbatim>\<open>filesSrc\<close>), \<^verbatim>\<open>protectAndDownload\<close> throws the "Ready profiling
  data PREVENTS ..." error right after the probe: the probe is the only entry of the
  trace, so no source is removed and none is uploaded.
\<close>

theorem ready_profiling_blocks_sources:
  assumes "truthy_str (cfg_applicationId cfg)"
    and "truthy_str (cfg_filesDest cfg) \<or> cb \<noteq> None"
    and "\<not> cfg_skipSources cfg" and "\<not> cfg_removeProfilingData cfg"
    and "getApplicationProfiling_res e = Inr ap" and "pr_state (res_data ap) = ''READY''"
    and "cfg_sources cfg \<noteq> None \<or> nonempty (cfg_filesSrc cfg)"
  shows "protectAndDownload e cfg cb =
           ([NetGetProfilingRun (cfg_applicationId cfg)],
            Throw (Error (''Ready profiling data PREVENTS source files from being UPDATED! '' @
              ''Please add option *--remove-profiling-data* or *--skip-source* to continue.''))) \<and>
         filter is_remove_or_upload (fst (protectAndDownload e cfg cb)) = []"
  using assms
  by (auto simp: protectAndDownload_def protect_submit_def check_required_def
      effective_filesDest_def effective_filesSrc_def protect_sources_def
      getApplicationProfiling_def updateApplicationSources_def catch404_def call_def ret_def
      throw_def)

theorem ready_profiling_blocks_sources_witness:
  "protectAndDownload
     (quiet_env\<lparr>getApplicationProfiling_res := Inr (ok_response (run_snapshot ''READY''))\<rparr>)
     (basic_config\<lparr>cfg_filesSrc := Some [FsPath ''src/*.js'']\<rparr>) None =
     ([NetGetProfilingRun (Some ''app'')],
      Throw (Error (''Ready profiling data PREVENTS source files from being UPDATED! '' @
        ''Please add option *--remove-profiling-data* or *--skip-source* to continue.'')))"
  using ready_profiling_blocks_sources
          [of "basic_config\<lparr>cfg_filesSrc := Some [FsPath ''src/*.js'']\<rparr>" None
              "quiet_env\<lparr>getApplicationProfiling_res :=
                 Inr (ok_response (run_snapshot ''READY''))\<rparr>"
              "ok_response (run_snapshot ''READY'')"]
  by (simp add: basic_config_def quiet_env_def ok_response_def run_snapshot_def)

subsection \<open>Probing for a profiling run\<close>

text \<open>
  C7, as the code has it.  When the probe for the profiling run is rejected with status
  404, \<^verbatim>\<open>protectAndDownload\<close> goes on to \<^verbatim>\<open>updateApplicationSources\<close> with no
  profiling run, and \<^verbatim>\<open>startInstrumentation\<close> goes on to create the run without a
  delete; \<^verbatim>\<open>setProfilingState\<close> does not re-raise the rejection either, but it
  stops there with the error "There is no active profiling run. Instrument your
  application first.".  A rejection with any other status, or with none, is thrown on
  by all three right after the probe.
\<close>

theorem profiling_probe_not_found:
  assumes "getApplicationProfiling_res e = Inl err"
  shows
    "(statusCode err = Some 404 \<longrightarrow>
        (\<not> cfg_skipSources cfg \<longrightarrow>
           protect_sources e cfg =
             (NetGetProfilingRun (cfg_applicationId cfg) #
                fst (updateApplicationSources e (cfg_applicationId cfg) (cfg_sources cfg)
                       (effective_filesSrc cfg) (cfg_cwd cfg) None),
              snd (updateApplicationSources e (cfg_applicationId cfg) (cfg_sources cfg)
                     (effective_filesSrc cfg) (cfg_cwd cfg) None))) \<and>
        startInstrumentation e a =
          ([NetGetProfilingRun a, NetPostProfilingRun a],
           case postProfilingRun_res e of Inl x \<Rightarrow> Throw (Rejected x) | Inr v \<Rightarrow> Return v) \<and>
        setProfilingState e cfg state label =
          ([NetGetProfilingRun (cfg_applicationId cfg)],
           Throw (Error ''There is no active profiling run. Instrument your application first.''))) \<and>
     (statusCode err \<noteq> Some 404 \<longrightarrow>
        (truthy_str (cfg_applicationId cfg) \<and> (truthy_str (cfg_filesDest cfg) \<or> cb \<noteq> None) \<and>
         \<not> cfg_skipSources cfg \<longrightarrow>
           protectAndDownload e cfg cb =
             ([NetGetProfilingRun (cfg_applicationId cfg)], Throw (Rejected err))) \<and>
        startInstrumentation e a = ([NetGetProfilingRun a], Throw (Rejected err)) \<and>
        setProfilingState e cfg state label =
          ([NetGetProfilingRun (cfg_applicationId cfg)], Throw (Rejected err)))"
  using assms
  by (auto simp: protectAndDownload_def protect_submit_def check_required_def
      effective_filesDest_def protect_sources_def getApplicationProfiling_def
      startInstrumentation_def setProfilingState_def catch404_def call_def ret_def throw_def)

theorem profiling_probe_not_found_witness:
  "protect_sources quiet_env basic_config = ([NetGetProfilingRun (Some ''app'')], Return None) \<and>
   startInstrumentation quiet_env (Some ''app'') =
     ([NetGetProfilingRun (Some ''app''), NetPostProfilingRun (Some ''app'')],
      Return (ok_response (run_snapshot ''CREATED''))) \<and>
   protectAndDownload (quiet_env\<lparr>getApplicationProfiling_res := Inl (HttpError (Some 500))\<rparr>)
     basic_config None =
     ([NetGetProfilingRun (Some ''app'')], Throw (Rejected (HttpError (Some 500)))) \<and>
   startInstrumentation (quiet_env\<lparr>getApplicationProfiling_res := Inl (HttpError None)\<rparr>)
     (Some ''app'') =
     ([NetGetProfilingRun (Some ''app'')], Throw (Rejected (HttpError None))) \<and>
   setProfilingState (quiet_env\<lparr>getApplicationProfiling_res := Inl (HttpError (Some 500))\<rparr>)
     basic_config ''RUNNING'' ''started'' =
     ([NetGetProfilingRun (Some ''app'')], Throw (Rejected (HttpError (Some 500))))"
  using profiling_probe_not_found
          [where e = quiet_env and err = "HttpError (Some 404)" and cfg = basic_config
             and a = "Some ''app''"]
        profiling_probe_not_found
          [where e = "quiet_env\<lparr>getApplicationProfiling_res := Inl (HttpError (Some 500))\<rparr>"
             and err = "HttpError (Some 500)" and cfg = basic_config and cb = None
             and state = "''RUNNING''" and label = "''started''"]
        profiling_probe_not_found
          [where e = "quiet_env\<lparr>getApplicationProfiling_res := Inl (HttpError None)\<rparr>"
             and err = "HttpError None" and a = "Some ''app''"]
  by (simp add: quiet_env_def basic_config_def updateApplicationSources_def
      effective_filesSrc_def ret_def)

text \<open>
  C7, as the claim states it, fails for \<^verbatim>\<open>setProfilingState\<close>: with the probe
  answered 404 the operation is aborted.
\<close>

theorem setProfilingState_not_found_counterexample:
  "setProfilingState (quiet_env\<lparr>getApplicationProfiling_res := Inl (HttpError (Some 404))\<rparr>)
     basic_config ''RUNNING'' ''started'' =
     ([NetGetProfilingRun (Some ''app'')],
      Throw (Error ''There is no active profiling run. Instrument your application first.''))"
  by (simp add: setProfilingState_def quiet_env_def basic_config_def catch404_def call_def
      throw_def)

subsection \<open>setProfilingState\<close>

text \<open>
  The patch calls of \<^verbatim>\<open>setProfilingState\<close>.  When the probe is answered with a run
  whose state equals the requested state, nothing more is sent: the trace is the probe
  and the console line "Profiling was already <label> for application <id>.".  When the
  states differ exactly one patch is sent, to that run and with the requested state,
  right after the probe.
\<close>

lemma setProfilingState_patch_calls:
  assumes "getApplicationProfiling_res e = Inr i"
  shows
    "(pr_state (res_data i) = state \<longrightarrow>
        setProfilingState e cfg state label =
          ([NetGetProfilingRun (cfg_applicationId cfg),
            Console Log [Text (''Profiling was already '' @ label @ '' for application '' @
              template (cfg_applicationId cfg) @ ''.'')]], Return ()) \<and>
        filter is_patch (fst (setProfilingState e cfg state label)) = []) \<and>
     (pr_state (res_data i) \<noteq> state \<longrightarrow>
        filter is_patch (fst (setProfilingState e cfg state label)) =
          [NetPatchProfilingRun (pr_id (res_data i)) state] \<and>
        filter is_network (fst (setProfilingState e cfg state label)) =
          [NetGetProfilingRun (cfg_applicationId cfg),
           NetPatchProfilingRun (pr_id (res_data i)) state])"
  using assms
  by (auto simp: setProfilingState_def catch404_def call_def emit_def split: sum.splits)

text \<open>
  C8.  The code does not report the previous state.  Asked for \<^verbatim>\<open>RUNNING\<close> with the
  label "started" while the run is already \<^verbatim>\<open>RUNNING\<close>, \<^verbatim>\<open>setProfilingState\<close>
  sends no patch, prints "Profiling was already started for application app." and
  returns nothing: the previous state is neither the result nor part of the line, which
  is built from the caller's label.  Asked for \<^verbatim>\<open>RUNNING\<close> while the run is
  \<^verbatim>\<open>READY\<close>, and again while it is \<^verbatim>\<open>PAUSED\<close>, it leaves the same trace (the
  probe, one patch, one line) and the same result, so nothing the caller sees depends
  on the previous state.
\<close>

theorem setProfilingState_previous_state_not_reported:
  "setProfilingState
     (quiet_env\<lparr>getApplicationProfiling_res := Inr (ok_response (run_snapshot ''RUNNING''))\<rparr>)
     basic_config ''RUNNING'' ''started'' =
     ([NetGetProfilingRun (Some ''app''),
       Console Log [Text ''Profiling was already started for application app.'']], Return ()) \<and>
   setProfilingState
     (quiet_env\<lparr>getApplicationProfiling_res := Inr (ok_response (run_snapshot ''READY''))\<rparr>)
     basic_config ''RUNNING'' ''started'' =
     ([NetGetProfilingRun (Some ''app''), NetPatchProfilingRun ''run1'' ''RUNNING'',
       Console Log [Text ''Profiling was started for application app.'']], Return ()) \<and>
   setProfilingState
     (quiet_env\<lparr>getApplicationProfiling_res := Inr (ok_response (run_snapshot ''PAUSED''))\<rparr>)
     basic_config ''RUNNING'' ''started'' =
     ([NetGetProfilingRun (Some ''app''), NetPatchProfilingRun ''run1'' ''RUNNING'',
       Console Log [Text ''Profiling was started for application app.'']], Return ())"
  by (simp add: setProfilingState_def quiet_env_def basic_config_def ok_response_def
      run_snapshot_def catch404_def call_def emit_def)

subsection \<open>What a stretch of a workflow can put on the trace\<close>

text \<open>
  Each lemma says: if a property holds of the kinds of event a stretch can emit, it holds of
  every entry of the trace of that stretch, whatever the collaborators answer.
\<close>

lemma events_andThen:
  "list_all P (fst m) \<Longrightarrow> (\<And>x. list_all P (fst (f x))) \<Longrightarrow> list_all P (fst (andThen m f))"
  by (simp add: fst_andThen split: outcome.splits)

lemma events_ret: "list_all P (fst (ret x))"
  by (simp add: ret_def)

lemma events_throw: "list_all P (fst (throw x))"
  by (simp add: throw_def)

lemma events_emit: "P ev \<Longrightarrow> list_all P (fst (emit ev))"
  by (simp add: emit_def)

lemma events_call: "P ev \<Longrightarrow> list_all P (fst (call ev r))"
  by (simp add: call_def)

lemma events_local_call: "P ev \<Longrightarrow> list_all P (fst (local_call ev r))"
  by (simp add: local_call_def)

lemma events_catch404: "list_all P (fst m) \<Longrightarrow> list_all P (fst (catch404 m))"
  by (cases m) (auto simp: catch404_def split: outcome.splits error.splits)

lemma events_debug_log: "(\<And>l a. P (Console l a)) \<Longrightarrow> list_all P (fst (debug_log d m))"
  by (simp add: debug_log_def emit_def ret_def)

lemma events_errorHandler: "(\<And>l a. P (Console l a)) \<Longrightarrow> list_all P (fst (errorHandler r))"
  by (auto simp: errorHandler_def ret_def throw_def list_all_iff split: option.splits list.splits)

lemma events_printSourcesErrors:
  "(\<And>l a. P (Console l a)) \<Longrightarrow> list_all P (fst (printSourcesErrors errs))"
  by (simp add: printSourcesErrors_def)

lemmas events_intros =
  events_andThen events_ret events_throw events_emit events_call events_local_call
  events_catch404 events_debug_log events_errorHandler events_printSourcesErrors

lemma events_expand_filesSrc:
  "(\<And>pat. P (GlobSync pat)) \<Longrightarrow> list_all P (fst (expand_filesSrc g fs))"
  by (induction g fs rule: expand_filesSrc.induct) (auto intro!: events_intros)

lemma events_updateApplicationSources:
  assumes "\<And>l a. P (Console l a)" and "\<And>s a. P (NetRemoveSource s a)"
    and "\<And>a b. P (NetAddSource a b)" and "\<And>pat. P (GlobSync pat)"
    and "\<And>fs c. P (ZipFiles fs c)" and "\<And>ss. P (ZipSources ss)"
  shows "list_all P (fst (updateApplicationSources e a sources filesSrc cwd ap))"
  unfolding updateApplicationSources_def Let_def
  by (auto intro!: events_intros events_expand_filesSrc assms split: option.splits)

lemma events_protect_sources:
  assumes "\<And>l a. P (Console l a)" and "\<And>s a. P (NetRemoveSource s a)"
    and "\<And>a b. P (NetAddSource a b)" and "\<And>pat. P (GlobSync pat)"
    and "\<And>fs c. P (ZipFiles fs c)" and "\<And>ss. P (ZipSources ss)"
    and "\<And>a. P (NetGetProfilingRun a)" and "\<And>i s. P (NetPatchProfilingRun i s)"
  shows "list_all P (fst (protect_sources e cfg))"
  unfolding protect_sources_def getApplicationProfiling_def deleteProfiling_def
  by (auto intro!: events_intros events_updateApplicationSources assms split: option.splits)

lemma events_pollProtection:
  assumes "\<And>l a. P (Console l a)" and "\<And>a i. P (NetGetProtection a i)" and "\<And>n. P (Delay n)"
  shows "list_all P (fst (pollProtection a i rs))"
proof (induction rs)
  case Nil
  show ?case by (simp add: assms)
next
  case (Cons r rs)
  then show ?case
    by (auto intro!: events_intros assms simp: Let_def split: option.splits)
qed

lemma events_protect_poll:
  assumes "\<And>l a. P (Console l a)" and "\<And>a i. P (NetGetProtection a i)" and "\<And>n. P (Delay n)"
    and "P NetDefaultFragments"
  shows "list_all P (fst (protect_poll e cfg pid))"
  unfolding protect_poll_def
  by (auto intro!: events_intros events_pollProtection assms)

lemma events_deprecations:
  "(\<And>l a. P (Console l a)) \<Longrightarrow> list_all P (concat (map deprecation_warning ds))"
  by (induction ds) auto

lemma events_protect_warnings:
  assumes "\<And>l a. P (Console l a)"
  shows "list_all P (fst (protect_warnings e p))"
  unfolding protect_warnings_def
  by (auto intro!: events_intros events_deprecations assms split: option.splits)

lemma snd_protect_warnings: "snd (protect_warnings e p) = Return ()"
  by (auto simp: protect_warnings_def snd_andThen emit_def ret_def debug_log_def
      split: option.splits outcome.splits)


lemma events_protect_update:
  assumes "\<And>l a. P (Console l a)" and "\<And>u. P (NetIntoObjectType u)"
    and "\<And>u. P (NetUpdateApplication u)"
  shows "list_all P (fst (protect_update e u))"
  unfolding protect_update_def
  by (auto intro!: events_intros assms)

lemma events_protect_create:
  assumes "\<And>l a. P (Console l a)" and "\<And>p. P (ReadFileSync p)"
    and "\<And>n. P (NetIntrospectMutation n)" and "\<And>a opts. P (NetCreateProtection a opts)"
  shows "list_all P (fst (protect_create e cfg u s))"
  unfolding protect_create_def createApplicationProtection_def Let_def
  by (auto intro!: events_intros assms)



lemma events_protect_submit:
  assumes "\<And>ev. \<not> is_download ev \<Longrightarrow> P ev"
  shows "list_all P (fst (protect_submit e cfg cb))"
  unfolding protect_submit_def check_required_def
  by (auto intro!: events_intros events_protect_sources events_protect_update
      events_protect_create events_protect_poll assms)

lemma no_download_before_result:
  "filter is_download (fst (protect_submit e cfg cb)) = []"
  using events_protect_submit [of "\<lambda>ev. \<not> is_download ev" e cfg cb]
  by (simp add: filter_empty_conv list_all_iff)

subsection \<open>The bundle of updateApplicationSources\<close>

lemma errorHandler_cases:
  "errorHandler r = ([], Return r) \<or> (\<exists>t x. errorHandler r = (t, Throw x) \<and> list_all is_console t)"
  by (auto simp: errorHandler_def ret_def throw_def list_all_iff split: option.splits list.splits)

lemma debug_log_cases:
  "debug_log d m = (if d then [Console Log [Text m]] else [], Return ())"
  by (simp add: debug_log_def emit_def ret_def)

lemma console_not_file_system: "is_console ev \<Longrightarrow> \<not> is_file_system ev"
  by (cases ev) auto

text \<open>
  C9.  Without inline sources and without a non-empty \<^verbatim>\<open>filesSrc\<close>,
  \<^verbatim>\<open>updateApplicationSources\<close> leaves an empty trace and returns no bundle.  With
  inline sources and no non-empty \<^verbatim>\<open>filesSrc\<close> it never calls \<^verbatim>\<open>glob.sync\<close>,
  the path-based \<^verbatim>\<open>zip\<close> or \<^verbatim>\<open>fs.readFileSync\<close>; whenever it returns, the
  result is the bundle with the encoded archive of exactly the given pairs as content,
  file name \<^verbatim>\<open>application.zip\<close> and extension \<^verbatim>\<open>zip\<close>; and it does return
  that bundle, after removing the old sources, zipping the pairs and uploading the
  bundle, when no ready profiling run stands in the way and the removal and the
  upload are answered without errors.
\<close>

theorem updateApplicationSources_bundle:
  "(sources = None \<and> \<not> nonempty filesSrc \<longrightarrow>
      updateApplicationSources e a sources filesSrc cwd ap = ([], Return None)) \<and>
   (sources = Some ss \<and> \<not> nonempty filesSrc \<longrightarrow>
      filter is_file_system (fst (updateApplicationSources e a sources filesSrc cwd ap)) = [] \<and>
      (\<forall>b. snd (updateApplicationSources e a sources filesSrc cwd ap) = Return b \<longrightarrow>
         b = Some (application_zip (generate_base64 e (zipSources ss)))) \<and>
      ((case ap of None \<Rightarrow> True | Some p \<Rightarrow> pr_state (res_data p) \<noteq> ''READY'') \<and>
       removeSourceFromApplication_res e = Inr r1 \<and> passes r1 \<and>
       addApplicationSource_res e = Inr r2 \<and> passes r2 \<longrightarrow>
         snd (updateApplicationSources e a sources filesSrc cwd ap) =
           Return (Some (application_zip (generate_base64 e (zipSources ss)))) \<and>
         filter (\<lambda>ev. \<not> is_console ev) (fst (updateApplicationSources e a sources filesSrc cwd ap)) =
           [NetRemoveSource [] a, ZipSources ss,
            NetAddSource a (application_zip (generate_base64 e (zipSources ss)))]))"
proof (intro conjI impI)
  assume "sources = None \<and> \<not> nonempty filesSrc"
  then show "updateApplicationSources e a sources filesSrc cwd ap = ([], Return None)"
    by (simp add: updateApplicationSources_def ret_def)
next
  assume h: "sources = Some ss \<and> \<not> nonempty filesSrc"
  show "filter is_file_system (fst (updateApplicationSources e a sources filesSrc cwd ap)) = []"
    using h errorHandler_cases [of "projr (removeSourceFromApplication_res e)"]
      errorHandler_cases [of "projr (addApplicationSource_res e)"]
    by (cases "removeSourceFromApplication_res e"; cases "addApplicationSource_res e")
       (auto simp: updateApplicationSources_def call_def emit_def ret_def throw_def debug_log_cases
          Let_def fst_andThen snd_andThen list_all_iff filter_empty_conv
          split: option.splits dest: console_not_file_system)
next
  assume h: "sources = Some ss \<and> \<not> nonempty filesSrc"
  show "\<forall>b. snd (updateApplicationSources e a sources filesSrc cwd ap) = Return b \<longrightarrow>
         b = Some (application_zip (generate_base64 e (zipSources ss)))"
    using h errorHandler_cases [of "projr (removeSourceFromApplication_res e)"]
      errorHandler_cases [of "projr (addApplicationSource_res e)"]
    by (cases "removeSourceFromApplication_res e"; cases "addApplicationSource_res e")
       (auto simp: updateApplicationSources_def call_def emit_def ret_def throw_def debug_log_cases
          Let_def fst_andThen snd_andThen application_zip_def
          split: option.splits)
next
  assume h: "sources = Some ss \<and> \<not> nonempty filesSrc"
    and ok: "(case ap of None \<Rightarrow> True | Some p \<Rightarrow> pr_state (res_data p) \<noteq> ''READY'') \<and>
       removeSourceFromApplication_res e = Inr r1 \<and> passes r1 \<and>
       addApplicationSource_res e = Inr r2 \<and> passes r2"
  show "snd (updateApplicationSources e a sources filesSrc cwd ap) =
           Return (Some (application_zip (generate_base64 e (zipSources ss))))"
    using h ok
    by (auto simp: updateApplicationSources_def call_def emit_def ret_def debug_log_cases
          Let_def errorHandler_passes application_zip_def split: option.splits)
  show "filter (\<lambda>ev. \<not> is_console ev) (fst (updateApplicationSources e a sources filesSrc cwd ap)) =
           [NetRemoveSource [] a, ZipSources ss,
            NetAddSource a (application_zip (generate_base64 e (zipSources ss)))]"
    using h ok
    by (auto simp: updateApplicationSources_def call_def emit_def ret_def debug_log_cases
          Let_def errorHandler_passes application_zip_def split: option.splits)
qed

theorem updateApplicationSources_bundle_witness:
  "updateApplicationSources quiet_env (Some ''app'') None (Some []) None None =
     ([], Return None) \<and>
   updateApplicationSources quiet_env (Some ''app'')
     (Some [\<lparr>src_filename = ''a.js'', src_content = ''1''\<rparr>]) None None None =
     ([NetRemoveSource [] (Some ''app''),
       ZipSources [\<lparr>src_filename = ''a.js'', src_content = ''1''\<rparr>],
       NetAddSource (Some ''app'') (application_zip ''a.js:1;'')],
      Return (Some (application_zip ''a.js:1;'')))"
  using updateApplicationSources_bundle
          [where e = quiet_env and a = "Some ''app''" and sources = None
             and filesSrc = "Some []" and cwd = None and ap = None]
        updateApplicationSources_bundle
          [where e = quiet_env and a = "Some ''app''"
             and sources = "Some [\<lparr>src_filename = ''a.js'', src_content = ''1''\<rparr>]"
             and ss = "[\<lparr>src_filename = ''a.js'', src_content = ''1''\<rparr>]"
             and filesSrc = None and cwd = None and ap = None
             and ?r1.0 = "ok_response ()" and ?r2.0 = "ok_response ()"]
  by (simp add: run_defs application_zip_def passes_def)

subsection \<open>A finished protection whose sources report errors\<close>

lemma no_download_in_errorHandler: "filter is_download (fst (errorHandler r)) = []"
  using events_errorHandler [of "\<lambda>ev. \<not> is_download ev" r]
  by (simp add: filter_empty_conv list_all_iff)

lemma protect_download_calls:
  "filter is_download (fst (protect_download e cfg cb pid)) = [NetDownloadProtection pid]"
  by (simp add: protect_download_def fst_andThen debug_log_def emit_def ret_def call_def
      local_call_def no_download_in_errorHandler
      split: outcome.splits sum.splits)

lemma protect_download_returns:
  "downloadApplicationProtection_res e = Inr d \<Longrightarrow> passes d \<Longrightarrow> unzip_res e = Inr () \<Longrightarrow>
   snd (protect_download e cfg cb pid) = Return pid"
  by (simp add: protect_download_def snd_andThen debug_log_def emit_def ret_def call_def
      local_call_def errorHandler_passes)

lemma no_download_in_warnings: "filter is_download (fst (protect_warnings e p)) = []"
  using events_protect_warnings [of "\<lambda>ev. \<not> is_download ev" e p]
  by (simp add: filter_empty_conv list_all_iff)

lemma no_download_in_nonfatal: "filter is_download (map nonfatal_warning xs) = []"
  by (induction xs) (auto simp: nonfatal_warning_def)

lemma sourcesErrors_reported: "sourcesErrors p = reported_errors p"
  unfolding sourcesErrors_def reported_errors_def
  by (rule arg_cong [where f = concat], rule map_cong [OF refl]) (auto split: option.splits)

lemma reported_errors_complete:
  "s \<in> set (p_sources p) \<Longrightarrow> ps_errorMessages s = Some ms \<Longrightarrow> m \<in> set ms \<Longrightarrow>
   \<lparr>se_filename = (case em_filename m of None \<Rightarrow> ps_filename s | Some f \<Rightarrow> f),
    se_message = em_message m, se_fields = em_fields m\<rparr> \<in> set (reported_errors p)"
  by (force simp: reported_errors_def)

lemma nonfatal_warning_text:
  "map nonfatal_warning errs =
     map (\<lambda>err. Console Warn [Text (''Non-fatal error: '' @ [CHR 0x22] @ se_message err @
            [CHR 0x22] @ '' in '' @ se_filename err)]) errs"
  by (simp add: nonfatal_warning_def)

lemma finished_bail_run:
  assumes "protect_submit e cfg cb = (tr0, Return (pid, p))"
    and "p_state p = ''finished''" and "reported_errors p \<noteq> []" and "p_bail p"
  shows "protectAndDownload e cfg cb =
           (tr0 @ fst (protect_warnings e p) @
              [Console Err [Text ''Application sources errors:''],
               Console Err [SourcesErrorsJson (reported_errors p)],
               Console Err [Text '''']],
            Throw (Error ''Your protection has failed.''))"
  unfolding protectAndDownload_def assms(1)
  using assms(2-4)
  by (simp add: prod_eq_iff fst_andThen snd_andThen snd_protect_warnings
      protect_classify_def printSourcesErrors_def throw_def sourcesErrors_reported)

lemma finished_warn_run:
  assumes "protect_submit e cfg cb = (tr0, Return (pid, p))"
    and "p_state p = ''finished''" and "reported_errors p \<noteq> []" and "\<not> p_bail p"
  shows "protectAndDownload e cfg cb =
           (tr0 @ fst (protect_warnings e p) @
              map (\<lambda>err. Console Warn [Text (''Non-fatal error: '' @ [CHR 0x22] @
                     se_message err @ [CHR 0x22] @ '' in '' @ se_filename err)])
                (reported_errors p) @
              fst (protect_download e cfg cb pid),
            snd (protect_download e cfg cb pid))"
  unfolding protectAndDownload_def assms(1)
  using assms(2-4)
  by (simp add: prod_eq_iff fst_andThen snd_andThen snd_protect_warnings
      protect_classify_def sourcesErrors_reported nonfatal_warning_text)

lemma errored_run:
  assumes "protect_submit e cfg cb = (tr0, Return (pid, q))" and "p_state q = ''errored''"
  shows "protectAndDownload e cfg cb =
           (tr0 @ fst (protect_warnings e q) @
              [Console Err [Text ''Global protection errors:''],
               Console Err [Text (''- '' @ template (p_errorMessage q))],
               Console Err [Text '''']] @
              (if reported_errors q = [] then []
               else [Console Err [Text ''Application sources errors:''],
                     Console Err [SourcesErrorsJson (reported_errors q)],
                     Console Err [Text '''']]),
            Throw (Error ''Protection failed. For more information visit: https://app.jscrambler.com.''))"
  unfolding protectAndDownload_def assms(1)
  using assms(2)
  by (simp add: prod_eq_iff fst_andThen snd_andThen snd_protect_warnings
      protect_classify_def printSourcesErrors_def throw_def ret_def sourcesErrors_reported
      APP_URL_def)

text \<open>
  C1, as the code has it.  Take a run of \<^verbatim>\<open>protectAndDownload\<close> in which everything
  up to the wait for the protection has returned, with trace \<open>tr0\<close>, protection id \<open>pid\<close>
  and polled snapshot \<open>p\<close>, where \<open>p\<close> is \<^verbatim>\<open>finished\<close> and its sources carry at least
  one error message.

  If the \<^verbatim>\<open>bail\<close> field of the snapshot is set, the run prints the growth and
  deprecation warnings, then "Application sources errors:", the list of all the errors
  and an empty line, and throws "Your protection has failed."; the list holds the error
  of every message of every source, and the trace holds no download call.

  If that field is not set, the run prints, for every message of every source, the
  warning \<^verbatim>\<open>Non-fatal error: "<message>" in <file>\<close>, one per error and in order; the
  download stretch follows, the trace holds exactly one download call, for \<open>pid\<close>, and
  the run returns \<open>pid\<close> when the download is answered without errors and the archive
  unpacks.  The file of an error is the file name of its source, unless the message
  names a file itself.
\<close>

theorem finished_with_source_errors:
  assumes "protect_submit e cfg cb = (tr0, Return (pid, p))"
    and "p_state p = ''finished''" and "reported_errors p \<noteq> []"
  shows
    "(p_bail p \<longrightarrow>
        protectAndDownload e cfg cb =
          (tr0 @ fst (protect_warnings e p) @
             [Console Err [Text ''Application sources errors:''],
              Console Err [SourcesErrorsJson (reported_errors p)],
              Console Err [Text '''']],
           Throw (Error ''Your protection has failed.'')) \<and>
        (\<forall>s ms m. s \<in> set (p_sources p) \<and> ps_errorMessages s = Some ms \<and> m \<in> set ms \<longrightarrow>
           (\<exists>errs. Console Err [SourcesErrorsJson errs] \<in> set (fst (protectAndDownload e cfg cb)) \<and>
              \<lparr>se_filename = (case em_filename m of None \<Rightarrow> ps_filename s | Some f \<Rightarrow> f),
               se_message = em_message m, se_fields = em_fields m\<rparr> \<in> set errs)) \<and>
        filter is_download (fst (protectAndDownload e cfg cb)) = []) \<and>
     (\<not> p_bail p \<longrightarrow>
        fst (protectAndDownload e cfg cb) =
          tr0 @ fst (protect_warnings e p) @
            map (\<lambda>err. Console Warn [Text (''Non-fatal error: '' @ [CHR 0x22] @
                   se_message err @ [CHR 0x22] @ '' in '' @ se_filename err)])
              (reported_errors p) @
            fst (protect_download e cfg cb pid) \<and>
        (\<forall>s ms m. s \<in> set (p_sources p) \<and> ps_errorMessages s = Some ms \<and> m \<in> set ms \<longrightarrow>
           Console Warn [Text (''Non-fatal error: '' @ [CHR 0x22] @ em_message m @ [CHR 0x22] @
             '' in '' @ (case em_filename m of None \<Rightarrow> ps_filename s | Some f \<Rightarrow> f))]
             \<in> set (fst (protectAndDownload e cfg cb))) \<and>
        filter is_download (fst (protectAndDownload e cfg cb)) = [NetDownloadProtection pid] \<and>
        (downloadApplicationProtection_res e = Inr d \<and> passes d \<and> unzip_res e = Inr () \<longrightarrow>
           snd (protectAndDownload e cfg cb) = Return pid))"
proof -
  have nd: "filter is_download tr0 = []"
    using no_download_before_result [of e cfg cb] assms(1) by simp
  show ?thesis
  proof (cases "p_bail p")
    case True
    note run = finished_bail_run [OF assms True]
    have all: "\<exists>errs. Console Err [SourcesErrorsJson errs]
                 \<in> set (fst (protectAndDownload e cfg cb)) \<and>
               \<lparr>se_filename = (case em_filename m of None \<Rightarrow> ps_filename s | Some f \<Rightarrow> f),
                se_message = em_message m, se_fields = em_fields m\<rparr> \<in> set errs"
      if "s \<in> set (p_sources p)" "ps_errorMessages s = Some ms" "m \<in> set ms" for s ms m
      using reported_errors_complete [OF that] by (intro exI [of _ "reported_errors p"]) (simp add: run)
    show ?thesis
      using True nd no_download_in_warnings [of e p] all by (simp add: run)
  next
    case False
    note run = finished_warn_run [OF assms False]
    have each: "Console Warn [Text (''Non-fatal error: '' @ [CHR 0x22] @ em_message m @
                  [CHR 0x22] @ '' in '' @
                  (case em_filename m of None \<Rightarrow> ps_filename s | Some f \<Rightarrow> f))]
                \<in> set (fst (protectAndDownload e cfg cb))"
      if "s \<in> set (p_sources p)" "ps_errorMessages s = Some ms" "m \<in> set ms" for s ms m
    proof -
      let ?err = "\<lparr>se_filename = (case em_filename m of None \<Rightarrow> ps_filename s | Some f \<Rightarrow> f),
                    se_message = em_message m, se_fields = em_fields m\<rparr>"
      define line where
        "line = (\<lambda>err :: source_error. Console Warn [Text (''Non-fatal error: '' @ [CHR 0x22] @
                   se_message err @ [CHR 0x22] @ '' in '' @ se_filename err)])"
      have "?err \<in> set (reported_errors p)"
        by (rule reported_errors_complete [OF that])
      then have "line ?err \<in> set (map line (reported_errors p))"
        by simp
      then show ?thesis
        by (simp add: run line_def)
    qed
    have dl: "filter is_download
                (map (\<lambda>err. Console Warn [Text (''Non-fatal error: '' @ [CHR 0x22] @
                   se_message err @ [CHR 0x22] @ '' in '' @ se_filename err)])
                   (reported_errors p)) = []"
      using no_download_in_nonfatal [of "reported_errors p"] by (simp add: nonfatal_warning_text)
    have one: "filter is_download (fst (protectAndDownload e cfg cb)) =
                 [NetDownloadProtection pid]"
      using nd no_download_in_warnings [of e p] dl protect_download_calls [of e cfg cb pid]
      by (simp add: run)
    have ret: "snd (protectAndDownload e cfg cb) = Return pid"
      if "downloadApplicationProtection_res e = Inr d" "passes d" "unzip_res e = Inr ()"
      using protect_download_returns [OF that, of cfg cb pid] by (simp add: run)
    show ?thesis
      using False each one ret by (simp add: run)
  qed
qed

theorem finished_with_source_errors_witness:
  "snd (protectAndDownload
          (quiet_env\<lparr>getApplicationProtection_res := [fetched (reporting_protection True)]\<rparr>)
          basic_config None) = Throw (Error ''Your protection has failed.'') \<and>
   filter is_console (fst (protectAndDownload
          (quiet_env\<lparr>getApplicationProtection_res := [fetched (reporting_protection True)]\<rparr>)
          basic_config None)) =
     [Console Err [Text ''Application sources errors:''],
      Console Err [SourcesErrorsJson
        [\<lparr>se_filename = ''a.js'', se_message = ''x'', se_fields = []\<rparr>,
         \<lparr>se_filename = ''other.js'', se_message = ''y'', se_fields = []\<rparr>,
         \<lparr>se_filename = ''c.js'', se_message = ''z'', se_fields = []\<rparr>]],
      Console Err [Text '''']] \<and>
   filter is_download (fst (protectAndDownload
          (quiet_env\<lparr>getApplicationProtection_res := [fetched (reporting_protection True)]\<rparr>)
          basic_config None)) = [] \<and>
   snd (protectAndDownload
          (quiet_env\<lparr>getApplicationProtection_res := [fetched (reporting_protection False)]\<rparr>)
          basic_config None) = Return ''p1'' \<and>
   filter is_download (fst (protectAndDownload
          (quiet_env\<lparr>getApplicationProtection_res := [fetched (reporting_protection False)]\<rparr>)
          basic_config None)) = [NetDownloadProtection ''p1''] \<and>
   filter is_warning (fst (protectAndDownload
          (quiet_env\<lparr>getApplicationProtection_res := [fetched (reporting_protection False)]\<rparr>)
          basic_config None)) =
     [Console Warn [Text (''Non-fatal error: '' @ [CHR 0x22] @ ''x'' @ [CHR 0x22] @ '' in a.js'')],
      Console Warn [Text (''Non-fatal error: '' @ [CHR 0x22] @ ''y'' @ [CHR 0x22] @
        '' in other.js'')],
      Console Warn [Text (''Non-fatal error: '' @ [CHR 0x22] @ ''z'' @ [CHR 0x22] @ '' in c.js'')]]"
proof -
  let ?E = "\<lambda>b. quiet_env\<lparr>getApplicationProtection_res := [fetched (reporting_protection b)]\<rparr>"
  have s: "protect_submit (?E b) basic_config None =
             (fst (protect_submit (?E b) basic_config None),
              Return (''p1'', reporting_protection b))" for b
    by (simp add: prod_eq_iff run_defs reporting_protection_def)
  have f: "p_state (reporting_protection b) = ''finished''" for b
    by (simp add: reporting_protection_def snapshot_def)
  have n: "reported_errors (reporting_protection b) \<noteq> []" for b
    by (simp add: reported_errors_def reporting_protection_def)
  show ?thesis
    using finished_with_source_errors [OF s [of True] f n]
          finished_with_source_errors [OF s [of False] f n,
            where d = "ok_response ''protected-bytes''"]
    by (simp add: run_defs reporting_protection_def reported_errors_def passes_def)
qed

text \<open>
  C1, as the claim states it, fails.  With \<^verbatim>\<open>bail\<close> configured true and a finished
  snapshot that reports an error but carries \<^verbatim>\<open>bail\<close> false, the run does not raise:
  it downloads and returns the protection id.  And with \<^verbatim>\<open>bail\<close> false on both
  sides, a run whose download call is rejected issues the download call and does not
  return the protection id.
\<close>

theorem configured_bail_counterexample:
  "snd (protectAndDownload
          (quiet_env\<lparr>getApplicationProtection_res := [fetched (failing_protection False)]\<rparr>)
          (basic_config\<lparr>cfg_bail := Some True\<rparr>) None) = Return ''p1'' \<and>
   filter is_download (fst (protectAndDownload
          (quiet_env\<lparr>getApplicationProtection_res := [fetched (failing_protection False)]\<rparr>)
          (basic_config\<lparr>cfg_bail := Some True\<rparr>) None)) = [NetDownloadProtection ''p1''] \<and>
   snd (protectAndDownload
          (quiet_env\<lparr>getApplicationProtection_res := [fetched (failing_protection False)],
                     downloadApplicationProtection_res := Inl (HttpError (Some 500))\<rparr>)
          (basic_config\<lparr>cfg_bail := Some False\<rparr>) None) = Throw (Rejected (HttpError (Some 500)))"
  by (simp add: run_defs failing_protection_def failing_source_def)

subsection \<open>An errored protection\<close>

text \<open>
  C2, as the code has it.  One answered fetch of \<^verbatim>\<open>pollProtection\<close> is classified by
  the state of the snapshot: a state other than \<^verbatim>\<open>finished\<close>, \<^verbatim>\<open>errored\<close> and
  \<^verbatim>\<open>canceled\<close> waits 500 ms and polls again; \<^verbatim>\<open>canceled\<close> throws the
  "canceled by user" error; \<^verbatim>\<open>finished\<close> returns the snapshot; and \<^verbatim>\<open>errored\<close>
  returns the snapshot as well, the polling step does not fail on it.  The failure for
  an \<^verbatim>\<open>errored\<close> snapshot is raised afterwards by \<^verbatim>\<open>protectAndDownload\<close>: a run
  whose wait returned an \<^verbatim>\<open>errored\<close> snapshot prints "Global protection errors:",
  the snapshot's error message and an empty line, then the source errors if there are
  any, and throws "Protection failed. For more information visit:
  https://app.jscrambler.com.".
\<close>

theorem pollProtection_classification:
  "(\<not> terminal_state (p_state p) \<longrightarrow>
      pollProtection a i (fetched p # rs) =
        (NetGetProtection a i # Delay 500 # fst (pollProtection a i rs),
         snd (pollProtection a i rs))) \<and>
   (p_state p = ''canceled'' \<longrightarrow>
      pollProtection a i (fetched p # rs) =
        ([NetGetProtection a i], Throw (Error ''Protection canceled by user''))) \<and>
   (p_state p = ''errored'' \<longrightarrow>
      pollProtection a i (fetched p # rs) = ([NetGetProtection a i], Return p)) \<and>
   (p_state p = ''finished'' \<longrightarrow>
      pollProtection a i (fetched p # rs) = ([NetGetProtection a i], Return p)) \<and>
   (protect_submit e cfg cb = (tr0, Return (pid, q)) \<and> p_state q = ''errored'' \<longrightarrow>
      protectAndDownload e cfg cb =
        (tr0 @ fst (protect_warnings e q) @
           [Console Err [Text ''Global protection errors:''],
            Console Err [Text (''- '' @ template (p_errorMessage q))],
            Console Err [Text '''']] @
           (if reported_errors q = [] then []
            else [Console Err [Text ''Application sources errors:''],
                  Console Err [SourcesErrorsJson (reported_errors q)],
                  Console Err [Text '''']]),
         Throw (Error
           ''Protection failed. For more information visit: https://app.jscrambler.com.'')))"
  using errored_run [of e cfg cb tr0 pid q]
  by (simp add: pollProtection_continue pollProtection_canceled pollProtection_returns
      del: pollProtection.simps)

theorem pollProtection_classification_witness:
  "pollProtection None ''p1'' [fetched (snapshot ''running''), fetched (snapshot ''finished'')] =
     ([NetGetProtection None ''p1'', Delay 500, NetGetProtection None ''p1''],
      Return (snapshot ''finished'')) \<and>
   pollProtection None ''p1'' [fetched (snapshot ''canceled'')] =
     ([NetGetProtection None ''p1''], Throw (Error ''Protection canceled by user'')) \<and>
   pollProtection None ''p1'' [fetched (snapshot ''errored'')] =
     ([NetGetProtection None ''p1''], Return (snapshot ''errored'')) \<and>
   snd (protectAndDownload
          (quiet_env\<lparr>getApplicationProtection_res := [fetched errored_protection]\<rparr>)
          basic_config None) =
     Throw (Error ''Protection failed. For more information visit: https://app.jscrambler.com.'') \<and>
   filter is_console (fst (protectAndDownload
          (quiet_env\<lparr>getApplicationProtection_res := [fetched errored_protection]\<rparr>)
          basic_config None)) =
     [Console Err [Text ''Global protection errors:''], Console Err [Text ''- boom''],
      Console Err [Text '''']] \<and>
   filter is_download (fst (protectAndDownload
          (quiet_env\<lparr>getApplicationProtection_res := [fetched errored_protection]\<rparr>)
          basic_config None)) = []"
proof -
  let ?E = "quiet_env\<lparr>getApplicationProtection_res := [fetched errored_protection]\<rparr>"
  have s: "protect_submit ?E basic_config None =
             (fst (protect_submit ?E basic_config None), Return (''p1'', errored_protection))"
    by (simp add: prod_eq_iff run_defs errored_protection_def)
  have f: "p_state errored_protection = ''errored''"
    by (simp add: errored_protection_def snapshot_def)
  show ?thesis
    using pollProtection_classification
            [where p = "snapshot ''running''" and a = None and i = "''p1''"
               and rs = "[fetched (snapshot ''finished'')]" and e = ?E and cfg = basic_config
               and cb = None and ?tr0.0 = "fst (protect_submit ?E basic_config None)"
               and pid = "''p1''" and q = errored_protection]
          pollProtection_classification
            [where p = "snapshot ''finished''" and a = None and i = "''p1''" and rs = "[]"
               and q = "snapshot ''finished''"]
          pollProtection_classification
            [where p = "snapshot ''canceled''" and a = None and i = "''p1''" and rs = "[]"
               and q = "snapshot ''finished''"]
          pollProtection_classification
            [where p = "snapshot ''errored''" and a = None and i = "''p1''" and rs = "[]"
               and q = "snapshot ''finished''"]
          s f
    by (simp add: run_defs errored_protection_def reported_errors_def terminal_state_def
        APP_URL_def)
qed

text \<open>
  C2, as the claim states it, fails: a snapshot in state \<^verbatim>\<open>errored\<close> does not make
  the polling step fail, the step returns the snapshot.
\<close>

theorem pollProtection_errored_counterexample:
  "snd (pollProtection (Some ''app'') ''p1'' [fetched (snapshot ''errored'')]) =
     Return (snapshot ''errored'')"
  by (simp add: fetched_def snapshot_def call_def ret_def)

subsection \<open>The parameter update before the job is created\<close>




























subsection \<open>Which bail flag decides\<close>
























end
